theory Spec2Isabelle
  imports Complex_Main "HOL-Library.AList"
begin

section \<open>The merge game of SuokaGame: a shallow embedding\<close>

text \<open>
  JavaScript numbers are modelled as follows: coordinates, velocities and times are
  \<open>real\<close>, disc values and scores are \<open>int\<close>, array indices are \<open>int\<close>
  (the pool's sentinel is \<open>-1\<close>), counters of identifiers are \<open>nat\<close>.
  Floating-point rounding is not modelled: arithmetic and comparisons are those of the
  reals, and no value is NaN (disc values are powers of two from 2 on, so
  \<open>Math.log2(value / 2)\<close> is defined).
  Every call of \<open>performance.now()\<close> is an explicit argument \<open>now\<close>; every call of
  \<open>Math.random()\<close> reads the next element of the stream \<open>mathRandom\<close> of the environment.
\<close>

subsection \<open>Configuration (the object cfg)\<close>

record env =
  dynamicBoardW :: real
  dynamicBoardH :: real
  isMobile :: bool
  mathRandom :: "nat \<Rightarrow> real"

definition cfg_radius :: "env \<Rightarrow> real" where
  "cfg_radius e =
     (if isMobile e then max 16 (min 32 (min (dynamicBoardW e) (dynamicBoardH e) * 0.08))
      else 34)"

definition getRadiusForValue :: "env \<Rightarrow> int \<Rightarrow> real" where
  "getRadiusForValue e v =
     (let minDimension = min (dynamicBoardW e) (dynamicBoardH e);
          baseRadius = (if isMobile e then max 16 (min 32 (minDimension * 0.08)) else 34);
          scaleFactor = log 2 (real_of_int v / 2) * 0.15;
          minRadius = max 12 (baseRadius * 0.5);
          maxRadius = max 40 (baseRadius * 1.8)
      in max minRadius (min maxRadius (baseRadius + scaleFactor * baseRadius)))"

definition boardW :: "env \<Rightarrow> real" where
  "boardW e = dynamicBoardW e"

definition boardH :: "env \<Rightarrow> real" where
  "boardH e = dynamicBoardH e"

definition dangerLineY :: "env \<Rightarrow> real" where
  "dangerLineY e = (if isMobile e then max 80 (min 150 (dynamicBoardH e * 0.2)) else 120)"

definition spawnY :: "env \<Rightarrow> real" where
  "spawnY e =
     (let maxRadius = getRadiusForValue e 32
      in max maxRadius (dangerLineY e - (maxRadius + 120)))"

definition gracePeriodMs :: real where "gracePeriodMs = 800"
definition dropCooldownMs :: real where "dropCooldownMs = 400"
definition maxCircles :: nat where "maxCircles = 150"
definition mergeSpeedMax :: real where "mergeSpeedMax = 200"
definition mergeRelSpeedMax :: real where "mergeRelSpeedMax = 300"
definition valueDist :: "int list" where "valueDist = [2, 2, 2, 2, 2, 4, 4, 8, 16, 32]"
definition scoreMul :: int where "scoreMul = 1"

text \<open>
  \<open>rollValue\<close>: \<open>cfg.valueDist[Math.floor(Math.random() * cfg.valueDist.length)]\<close>.
  \<open>Math.random()\<close> lies in \<open>[0, 1)\<close>, so the index is in range; outside that range
  JavaScript reads \<open>undefined\<close>, written \<open>0\<close> here.
\<close>

definition rollValue :: "real \<Rightarrow> int" where
  "rollValue r =
     (let i = \<lfloor>r * real (length valueDist)\<rfloor>
      in if 0 \<le> i \<and> i < int (length valueDist) then valueDist ! nat i else 0)"

subsection \<open>ParticlePool\<close>

text \<open>
  The typed arrays are lists of length \<open>capacity\<close>. \<open>freeList\<close> is the JavaScript
  array used as a stack: \<open>push\<close> appends at the end, \<open>pop\<close> takes the last element.
\<close>

record ParticlePool =
  capacity :: int
  count :: int
  freeList :: "int list"
  pool_x :: "real list"
  pool_y :: "real list"
  pool_vx :: "real list"
  pool_vy :: "real list"
  pool_size :: "real list"
  pool_maxSize :: "real list"
  pool_life :: "real list"
  pool_maxLife :: "real list"
  pool_startTime :: "real list"
  pool_colorIndex :: "nat list"

definition initialFreeList :: "nat \<Rightarrow> int list" where
  "initialFreeList cap = map int (rev [0..<cap])"

definition ParticlePool_new :: "nat \<Rightarrow> ParticlePool" where
  "ParticlePool_new cap =
     \<lparr> capacity = int cap, count = 0, freeList = initialFreeList cap,
       pool_x = replicate cap 0, pool_y = replicate cap 0,
       pool_vx = replicate cap 0, pool_vy = replicate cap 0,
       pool_size = replicate cap 0, pool_maxSize = replicate cap 0,
       pool_life = replicate cap 0, pool_maxLife = replicate cap 0,
       pool_startTime = replicate cap 0, pool_colorIndex = replicate cap 0 \<rparr>"

definition acquire :: "ParticlePool \<Rightarrow> int \<times> ParticlePool" where
  "acquire p =
     (if freeList p = [] then (-1, p)
      else (last (freeList p),
            p\<lparr> freeList := butlast (freeList p), count := count p + 1 \<rparr>))"

definition release :: "ParticlePool \<Rightarrow> int \<Rightarrow> ParticlePool" where
  "release p index =
     (if index < 0 \<or> index \<ge> capacity p then p
      else p\<lparr> freeList := freeList p @ [index], count := count p - 1 \<rparr>)"

definition pool_clear :: "ParticlePool \<Rightarrow> ParticlePool" where
  "pool_clear p = p\<lparr> count := 0, freeList := initialFreeList (nat (capacity p)) \<rparr>"

definition getActiveCount :: "ParticlePool \<Rightarrow> int" where
  "getActiveCount p = count p"

text \<open>
  The first pass of \<open>updateParticles\<close>: every slot whose \<open>life\<close> is positive and whose
  elapsed time has reached \<open>maxLife\<close> is released; the others with positive \<open>life\<close> are
  collected as active. The loop runs over \<open>i = 0 .. capacity - 1\<close>.
\<close>

fun releaseExpired :: "real \<Rightarrow> nat list \<Rightarrow> ParticlePool \<times> nat list \<Rightarrow> ParticlePool \<times> nat list" where
  "releaseExpired now [] (p, active) = (p, active)"
| "releaseExpired now (i # is) (p, active) =
     (if pool_life p ! i \<le> 0 then releaseExpired now is (p, active)
      else if now - pool_startTime p ! i \<ge> pool_maxLife p ! i
           then releaseExpired now is (release p (int i), active)
      else releaseExpired now is (p, active @ [i]))"

text \<open>The second pass: the physics and life update of one active particle.\<close>

definition updateParticle :: "real \<Rightarrow> real \<Rightarrow> ParticlePool \<Rightarrow> nat \<Rightarrow> ParticlePool" where
  "updateParticle now dt p i =
     (let gravity = 200; damping = 0.98;
          x' = pool_x p ! i + pool_vx p ! i * dt;
          y' = pool_y p ! i + pool_vy p ! i * dt;
          vy1 = pool_vy p ! i + gravity * dt;
          vx' = pool_vx p ! i * damping;
          vy' = vy1 * damping;
          elapsed = now - pool_startTime p ! i;
          lifeRatio = elapsed / pool_maxLife p ! i
      in p\<lparr> pool_x := (pool_x p)[i := x'], pool_y := (pool_y p)[i := y'],
            pool_vx := (pool_vx p)[i := vx'], pool_vy := (pool_vy p)[i := vy'],
            pool_life := (pool_life p)[i := pool_maxLife p ! i * (1 - lifeRatio)],
            pool_size := (pool_size p)[i := pool_maxSize p ! i * (1 - lifeRatio * 0.8)] \<rparr>)"

text \<open>
  \<open>updateParticles\<close> on the pair (pool, \<open>lastParticleUpdate\<close>); \<open>targetFPS\<close> is what
  \<open>stepRunner.getTargetFPS()\<close> returns.
\<close>

definition updateParticles :: "real \<Rightarrow> real \<Rightarrow> ParticlePool \<times> real \<Rightarrow> ParticlePool \<times> real" where
  "updateParticles targetFPS now pl =
     (let p = fst pl; lastParticleUpdate = snd pl;
          particleUpdateInterval =
            (if targetFPS \<ge> 144 then 8 else if targetFPS \<ge> 120 then 12 else (16::real))
      in if now - lastParticleUpdate < particleUpdateInterval then pl
         else
           let dt = (now - lastParticleUpdate) / 1000;
               (p1, active) = releaseExpired now [0..<nat (capacity p)] (p, [])
           in (foldl (updateParticle now dt) p1 active, now))"

subsection \<open>GameStateStore\<close>

record GameState =
  score :: int
  best :: int
  nextValue :: int
  running :: bool
  paused :: bool
  ended :: bool
  endReason :: string

text \<open>\<open>Partial<GameState>\<close>: each field is present or absent.\<close>

record PartialGameState =
  p_score :: "int option"
  p_best :: "int option"
  p_nextValue :: "int option"
  p_running :: "bool option"
  p_paused :: "bool option"
  p_ended :: "bool option"
  p_endReason :: "string option"

definition noUpdate :: PartialGameState where
  "noUpdate = \<lparr> p_score = None, p_best = None, p_nextValue = None, p_running = None,
                p_paused = None, p_ended = None, p_endReason = None \<rparr>"

text \<open>The object spread \<open>{ ...this.state, ...newState }\<close>.\<close>

definition spread :: "GameState \<Rightarrow> PartialGameState \<Rightarrow> GameState" where
  "spread s n =
     \<lparr> score = (case p_score n of None \<Rightarrow> score s | Some v \<Rightarrow> v),
       best = (case p_best n of None \<Rightarrow> best s | Some v \<Rightarrow> v),
       nextValue = (case p_nextValue n of None \<Rightarrow> nextValue s | Some v \<Rightarrow> v),
       running = (case p_running n of None \<Rightarrow> running s | Some v \<Rightarrow> v),
       paused = (case p_paused n of None \<Rightarrow> paused s | Some v \<Rightarrow> v),
       ended = (case p_ended n of None \<Rightarrow> ended s | Some v \<Rightarrow> v),
       endReason = (case p_endReason n of None \<Rightarrow> endReason s | Some v \<Rightarrow> v) \<rparr>"

text \<open>
  \<open>listeners\<close> holds the identifiers of the subscribed callbacks in insertion order;
  \<open>notified\<close> is the log of the listener calls made so far.
\<close>

record GameStateStore =
  state :: GameState
  listeners :: "nat list"
  updateThrottle :: real
  notified :: "nat list"

definition throttleMs :: real where "throttleMs = 100"

definition GameStateStore_new :: "GameState \<Rightarrow> GameStateStore" where
  "GameStateStore_new initialState =
     \<lparr> state = initialState, listeners = [], updateThrottle = 0, notified = [] \<rparr>"

definition setState :: "real \<Rightarrow> PartialGameState \<Rightarrow> GameStateStore \<Rightarrow> GameStateStore" where
  "setState now newState st =
     (if now - updateThrottle st < throttleMs then st
      else st\<lparr> updateThrottle := now,
               state := spread (state st) newState,
               notified := notified st @ listeners st \<rparr>)"

definition subscribe :: "nat \<Rightarrow> GameStateStore \<Rightarrow> GameStateStore" where
  "subscribe l st = st\<lparr> listeners := (if l \<in> set (listeners st) then listeners st else listeners st @ [l]) \<rparr>"

subsection \<open>SpriteCache.getColorIndex\<close>

definition getColorIndex :: "int \<Rightarrow> nat" where
  "getColorIndex v =
     (case map_of [(2, 0), (4, 1), (8, 2), (16, 3), (32, 4), (64, 5), (128, 6), (256, 7),
                   (512, 8), (1024, 9), (2048, 10), (4096, 11), (8192, 12::nat)] v of
        Some i \<Rightarrow> i | None \<Rightarrow> 13)"

subsection \<open>The game state\<close>

text \<open>
  A physics body of Matter.js, reduced to the fields the game reads and writes.
  \<open>Common.nextId()\<close> of Matter.js gives every new body a fresh identifier; it is the
  counter \<open>nextBodyId\<close> below.
\<close>

record Body =
  body_id :: nat
  body_label :: string
  position_x :: real
  position_y :: real
  velocity_x :: real
  velocity_y :: real
  force_x :: real
  force_y :: real

record CircleData =
  body :: Body
  circle_value :: int
  bornAt :: real
  circle_id :: nat

datatype AnimationType = MergeAnim | SpawnAnim

record Animation =
  startTime :: real
  duration :: real
  anim_type :: AnimationType
  targetX :: "real option"
  targetY :: "real option"
  startX :: "real option"
  startY :: "real option"
  scale :: "real option"

record MergeRequest =
  bodyAId :: nat
  bodyBId :: nat
  req_x :: real
  req_y :: real
  req_value :: int
  timestamp :: real

text \<open>
  The callbacks handed to \<open>setTimeout\<close>, with the variables each closure captures:
  the one of \<open>performMerge\<close> (A, B, x, y, newValue), the one of \<open>restart\<close> and the one
  of \<open>showToastMessage\<close>. A pending timer is a pair of its due time and its callback.
  No function of the program calls \<open>clearTimeout\<close>.
\<close>

datatype Timer =
    MergeTimeout CircleData CircleData real real int
  | TimeScaleTimeout
  | ToastTimeout

text \<open>
  The object \<open>state\<close> has the seven fields of \<open>GameState\<close> and more, so the record
  extends \<open>GameState\<close>. \<open>circles\<close> and \<open>animations\<close> are JavaScript Maps, kept as
  association lists in insertion order (\<open>AList.update\<close> replaces in place or appends,
  \<open>AList.delete\<close> removes); \<open>mergingCircles\<close> is a Set. After \<open>previewUpdateTime\<close> come
  the other variables of the closure of \<open>initGame\<close> and the React state the game writes:
  \<open>localBest\<close> is the item \<open>circle2048.best\<close> of localStorage, \<open>world\<close> the identifiers
  of the circle bodies in \<open>engine.world\<close>, \<open>timeScale\<close> is \<open>engine.timing.timeScale\<close>,
  \<open>randomPos\<close> the number of \<open>Math.random()\<close> calls made so far.
\<close>

record game = GameState +
  previewX :: real
  lastDropTs :: real
  circles :: "(nat \<times> CircleData) list"
  nextLocalId :: nat
  mergingCircles :: "nat set"
  animations :: "(nat \<times> Animation) list"
  mergeQueue :: "MergeRequest list"
  highestCircleTop :: real
  previewUpdateTime :: real
  particlePool :: ParticlePool
  store :: GameStateStore
  lastBestSave :: real
  localBest :: int
  world :: "nat list"
  nextBodyId :: nat
  timeScale :: real
  timers :: "(real \<times> Timer) list"
  showModal :: bool
  showToast :: bool
  toastMessage :: string
  lastParticleUpdate :: real
  randomPos :: nat

definition showToastMessage :: "string \<Rightarrow> real \<Rightarrow> game \<Rightarrow> game" where
  "showToastMessage message now s =
     s\<lparr> toastMessage := message, showToast := True,
        timers := timers s @ [(now + 1200, ToastTimeout)] \<rparr>"

definition createCircle :: "env \<Rightarrow> real \<Rightarrow> real \<Rightarrow> int \<Rightarrow> real \<Rightarrow> game \<Rightarrow> CircleData option \<times> game" where
  "createCircle e x y v now s =
     (if length (circles s) \<ge> maxCircles
      then (None, showToastMessage ''Object limit reached'' now s)
      else
        let newBody = \<lparr> body_id = nextBodyId s, body_label = ''circle'',
                         position_x = x, position_y = y,
                         velocity_x = 0, velocity_y = 0, force_x = 0, force_y = 0 \<rparr>;
            data = \<lparr> body = newBody, circle_value = v, bornAt = now,
                      circle_id = nextLocalId s \<rparr>
        in (Some data,
            s\<lparr> world := world s @ [body_id newBody],
               nextBodyId := Suc (nextBodyId s),
               nextLocalId := Suc (nextLocalId s),
               circles := AList.update (body_id newBody) data (circles s) \<rparr>))"

definition removeCircle :: "nat \<Rightarrow> game \<Rightarrow> game" where
  "removeCircle bodyId s =
     (case map_of (circles s) bodyId of
        None \<Rightarrow> s
      | Some data \<Rightarrow>
          s\<lparr> world := remove1 (body_id (body data)) (world s),
             circles := AList.delete bodyId (circles s),
             mergingCircles := mergingCircles s - {bodyId} \<rparr>)"

subsection \<open>Collision handling: the collisionStart handler\<close>

definition magnitude :: "real \<Rightarrow> real \<Rightarrow> real" where
  "magnitude vx vy = sqrt (vx * vx + vy * vy)"

definition canMerge :: "Body \<Rightarrow> Body \<Rightarrow> bool" where
  "canMerge bodyA bodyB =
     (let speedA = magnitude (velocity_x bodyA) (velocity_y bodyA);
          speedB = magnitude (velocity_x bodyB) (velocity_y bodyB);
          relSpeed = magnitude (velocity_x bodyA - velocity_x bodyB)
                               (velocity_y bodyA - velocity_y bodyB)
      in speedA < mergeSpeedMax \<and> speedB < mergeSpeedMax \<and> relSpeed < mergeRelSpeedMax)"

definition mkRequest :: "real \<Rightarrow> Body \<Rightarrow> Body \<Rightarrow> int \<Rightarrow> MergeRequest" where
  "mkRequest now bodyA bodyB v =
     \<lparr> bodyAId = body_id bodyA, bodyBId = body_id bodyB,
       req_x = (position_x bodyA + position_x bodyB) / 2,
       req_y = (position_y bodyA + position_y bodyB) / 2,
       req_value = v, timestamp = now \<rparr>"

text \<open>The body of the loop over \<open>pairs\<close>, for one pair.\<close>

definition collisionPair :: "real \<Rightarrow> game \<Rightarrow> Body \<times> Body \<Rightarrow> game" where
  "collisionPair now s pair =
     (let bodyA = fst pair; bodyB = snd pair
      in if body_label bodyA \<noteq> ''circle'' \<or> body_label bodyB \<noteq> ''circle'' then s
         else case (map_of (circles s) (body_id bodyA), map_of (circles s) (body_id bodyB)) of
             (Some A, Some B) \<Rightarrow>
               if circle_value A \<noteq> circle_value B then s
               else if body_id bodyA \<in> mergingCircles s \<or> body_id bodyB \<in> mergingCircles s
                    then s
               else if canMerge bodyA bodyB
                    then s\<lparr> mergeQueue := mergeQueue s @ [mkRequest now bodyA bodyB (circle_value A)] \<rparr>
               else s
           | _ \<Rightarrow> s)"

definition collisionStart :: "real \<Rightarrow> (Body \<times> Body) list \<Rightarrow> game \<Rightarrow> game" where
  "collisionStart now pairs s = foldl (collisionPair now) s pairs"

subsection \<open>Session end\<close>

definition endGame :: "string \<Rightarrow> real \<Rightarrow> game \<Rightarrow> game" where
  "endGame reason now s =
     (if ended s then s
      else s\<lparr> ended := True, running := False, endReason := reason, timeScale := 0,
              store := setState now
                 (noUpdate\<lparr> p_ended := Some True, p_running := Some False,
                            p_endReason := Some reason \<rparr>) (store s),
              showModal := True \<rparr>)"

subsection \<open>Merge resolution\<close>

text \<open>
  The body of the loop of \<open>createMergeExplosion\<close> after a slot was acquired, for the
  particle number \<open>i\<close> of \<open>particleCount\<close>: the five calls of \<open>Math.random()\<close> are made
  in the order angle, speed, size, life, colour, and the slot is written.
\<close>

definition writeParticle ::
  "env \<Rightarrow> real \<Rightarrow> real \<Rightarrow> nat \<Rightarrow> nat \<Rightarrow> real \<Rightarrow> real \<Rightarrow> nat \<Rightarrow> nat \<Rightarrow> int \<Rightarrow> game \<Rightarrow> game" where
  "writeParticle e x y oldColorIndex newColorIndex sizeMultiplier now particleCount i particleIndex s =
     (let k = randomPos s;
          j = nat particleIndex;
          pool1 = particlePool s;
          angle = (pi * 2 * real i) / real particleCount + (mathRandom e k - 0.5) * 0.5;
          speed = (80 + mathRandom e (k + 1) * 40) * sizeMultiplier;
          psize = (3 + mathRandom e (k + 2) * 4) * sizeMultiplier;
          life = 600 + mathRandom e (k + 3) * 300;
          colour = (if mathRandom e (k + 4) > 0.5 then oldColorIndex else newColorIndex);
          pool2 = pool1\<lparr>
            pool_x := (pool_x pool1)[j := x],
            pool_y := (pool_y pool1)[j := y],
            pool_vx := (pool_vx pool1)[j := cos angle * speed],
            pool_vy := (pool_vy pool1)[j := sin angle * speed],
            pool_size := (pool_size pool1)[j := psize],
            pool_maxSize := (pool_maxSize pool1)[j := psize],
            pool_life := (pool_life pool1)[j := life],
            pool_maxLife := (pool_maxLife pool1)[j := life],
            pool_startTime := (pool_startTime pool1)[j := now],
            pool_colorIndex := (pool_colorIndex pool1)[j := colour] \<rparr>
      in s\<lparr> particlePool := pool2, randomPos := k + 5 \<rparr>)"

text \<open>
  The loop \<open>for (let i = 0; i < particleCount; i++)\<close>, from \<open>i\<close> on with \<open>n\<close>
  iterations left; it breaks when \<open>acquire\<close> returns \<open>-1\<close>.
\<close>

fun explosionLoop ::
  "env \<Rightarrow> real \<Rightarrow> real \<Rightarrow> nat \<Rightarrow> nat \<Rightarrow> real \<Rightarrow> real \<Rightarrow> nat \<Rightarrow> nat \<Rightarrow> nat \<Rightarrow> game \<Rightarrow> game" where
  "explosionLoop e x y oldColorIndex newColorIndex sizeMultiplier now particleCount i 0 s = s"
| "explosionLoop e x y oldColorIndex newColorIndex sizeMultiplier now particleCount i (Suc n) s =
     (let particleIndex = fst (acquire (particlePool s));
          s1 = s\<lparr> particlePool := snd (acquire (particlePool s)) \<rparr>
      in if particleIndex = -1 then s1
         else explosionLoop e x y oldColorIndex newColorIndex sizeMultiplier now particleCount
                (Suc i) n
                (writeParticle e x y oldColorIndex newColorIndex sizeMultiplier now
                   particleCount i particleIndex s1))"

definition createMergeExplosion :: "env \<Rightarrow> real \<Rightarrow> real \<Rightarrow> nat \<Rightarrow> nat \<Rightarrow> int \<Rightarrow> real \<Rightarrow> game \<Rightarrow> game" where
  "createMergeExplosion e x y oldColorIndex newColorIndex circleValue now s =
     (let particleCount = nat (8 + \<lfloor>mathRandom e (randomPos s) * 4\<rfloor>);
          s1 = s\<lparr> randomPos := Suc (randomPos s) \<rparr>;
          circleRadius = getRadiusForValue e circleValue;
          sizeMultiplier = circleRadius / cfg_radius e
      in explosionLoop e x y oldColorIndex newColorIndex sizeMultiplier now particleCount
           0 particleCount s1)"

definition mergeAnimation :: "real \<Rightarrow> real \<Rightarrow> real \<Rightarrow> Body \<Rightarrow> Animation" where
  "mergeAnimation now x y b =
     \<lparr> startTime = now, duration = 300, anim_type = MergeAnim,
       targetX = Some x, targetY = Some y,
       startX = Some (position_x b), startY = Some (position_y b), scale = None \<rparr>"

definition performMerge :: "env \<Rightarrow> real \<Rightarrow> CircleData \<Rightarrow> CircleData \<Rightarrow> real \<Rightarrow> real \<Rightarrow> game \<Rightarrow> game" where
  "performMerge e now A B x y s =
     (let s1 = s\<lparr> mergingCircles :=
                    insert (body_id (body B)) (insert (body_id (body A)) (mergingCircles s)) \<rparr>;
          newValue = circle_value A * 2;
          s2 = createMergeExplosion e x y (getColorIndex (circle_value A))
                 (getColorIndex newValue) (circle_value A) now s1;
          s3 = s2\<lparr> animations :=
                    AList.update (body_id (body B)) (mergeAnimation now x y (body B))
                      (AList.update (body_id (body A)) (mergeAnimation now x y (body A))
                         (animations s2)) \<rparr>;
          s4 = s3\<lparr> score := score s3 + newValue * scoreMul \<rparr>;
          s5 = (if score s4 > best s4
                then let s4b = s4\<lparr> best := score s4 \<rparr>
                     in if now - lastBestSave s4b > 1000
                        then s4b\<lparr> localBest := best s4b, lastBestSave := now \<rparr>
                        else s4b
                else s4);
          s6 = s5\<lparr> store := setState now
                   (noUpdate\<lparr> p_score := Some (score s5), p_best := Some (best s5) \<rparr>)
                   (store s5) \<rparr>
      in s6\<lparr> timers := timers s6 @ [(now + 300, MergeTimeout A B x y newValue)] \<rparr>)"

lemma explosionLoop_mergeQueue [simp]:
  "mergeQueue (explosionLoop e x y oc nc sm now pc i n s) = mergeQueue s"
  by (induction n arbitrary: i s) (simp_all add: Let_def writeParticle_def)

lemma performMerge_mergeQueue [simp]:
  "mergeQueue (performMerge e now A B x y s) = mergeQueue s"
  by (simp add: performMerge_def createMergeExplosion_def Let_def)

text \<open>
  The loop of \<open>processMergeQueue\<close>: it shifts the first request off \<open>state.mergeQueue\<close>
  until the queue is empty. It ends because \<open>performMerge\<close> does not touch the queue.
\<close>

function processMergeQueue :: "env \<Rightarrow> real \<Rightarrow> game \<Rightarrow> game" where
  "processMergeQueue e now s =
     (case mergeQueue s of
        [] \<Rightarrow> s
      | m # rest \<Rightarrow>
          let s1 = s\<lparr> mergeQueue := rest \<rparr>
          in case (map_of (circles s1) (bodyAId m), map_of (circles s1) (bodyBId m)) of
               (Some A, Some B) \<Rightarrow>
                 if body_id (body A) \<in> mergingCircles s1 \<or> body_id (body B) \<in> mergingCircles s1
                 then processMergeQueue e now s1
                 else processMergeQueue e now (performMerge e now A B (req_x m) (req_y m) s1)
             | _ \<Rightarrow> processMergeQueue e now s1)"
  by pat_completeness auto
termination
  by (relation "measure (\<lambda>(e, now, s). length (mergeQueue s))") auto

text \<open>
  The callback that \<open>performMerge\<close> schedules 300 ms ahead. \<open>Body.applyForce\<close> adds the
  force to the body of the new disc, which is the object stored in \<open>state.circles\<close>.
\<close>

definition spawnAnimation :: "real \<Rightarrow> Animation" where
  "spawnAnimation now =
     \<lparr> startTime = now, duration = 200, anim_type = SpawnAnim,
       targetX = None, targetY = None, startX = None, startY = None, scale = Some 0 \<rparr>"

definition applyForce :: "real \<Rightarrow> real \<Rightarrow> CircleData \<Rightarrow> CircleData" where
  "applyForce fx fy c =
     c\<lparr> body := (body c)\<lparr> force_x := force_x (body c) + fx, force_y := force_y (body c) + fy \<rparr> \<rparr>"

definition mergeTimeout :: "env \<Rightarrow> real \<Rightarrow> CircleData \<Rightarrow> CircleData \<Rightarrow> real \<Rightarrow> real \<Rightarrow> int \<Rightarrow> game \<Rightarrow> game" where
  "mergeTimeout e now A B x y newValue s =
     (let s1 = removeCircle (body_id (body A)) s;
          s2 = removeCircle (body_id (body B)) s1;
          s3 = s2\<lparr> mergingCircles := mergingCircles s2 - {body_id (body A)} - {body_id (body B)} \<rparr>;
          (C, s4) = createCircle e x y newValue now s3
      in case C of
           None \<Rightarrow> s4
         | Some c \<Rightarrow>
             s4\<lparr> animations := AList.update (body_id (body c)) (spawnAnimation now) (animations s4),
                 circles := AList.update (body_id (body c)) (applyForce 0 0.005 c) (circles s4) \<rparr>)"

text \<open>Running a callback when its timer fires.\<close>

fun runTimer :: "env \<Rightarrow> real \<Rightarrow> Timer \<Rightarrow> game \<Rightarrow> game" where
  "runTimer e now (MergeTimeout A B x y newValue) s = mergeTimeout e now A B x y newValue s"
| "runTimer e now TimeScaleTimeout s = s\<lparr> timeScale := 1 \<rparr>"
| "runTimer e now ToastTimeout s = s\<lparr> showToast := False \<rparr>"

text \<open>
  The event loop fires the pending timer number \<open>k\<close> at the time \<open>now\<close>, if it is due.
\<close>

definition fireTimer :: "env \<Rightarrow> real \<Rightarrow> nat \<Rightarrow> game \<Rightarrow> game" where
  "fireTimer e now k s =
     (if k < length (timers s) \<and> fst (timers s ! k) \<le> now
      then runTimer e now (snd (timers s ! k))
             (s\<lparr> timers := take k (timers s) @ drop (Suc k) (timers s) \<rparr>)
      else s)"

subsection \<open>Danger line\<close>

definition circleTop :: "env \<Rightarrow> CircleData \<Rightarrow> real" where
  "circleTop e d = position_y (body d) - getRadiusForValue e (circle_value d)"

definition updateHighestCircle :: "env \<Rightarrow> game \<Rightarrow> game" where
  "updateHighestCircle e s =
     s\<lparr> highestCircleTop :=
          foldl (\<lambda>h d. if circleTop e d < h then circleTop e d else h)
            (boardH e) (map snd (circles s)) \<rparr>"

text \<open>
  The first loop of \<open>checkDangerLine\<close>: True when it reaches \<open>endGame\<close>. The second
  loop counts \<open>emergencyCount\<close>.
\<close>

fun dangerScan :: "env \<Rightarrow> real \<Rightarrow> CircleData list \<Rightarrow> bool" where
  "dangerScan e now [] = False"
| "dangerScan e now (d # ds) =
     (if now - bornAt d \<le> gracePeriodMs then dangerScan e now ds
      else if circleTop e d < dangerLineY e \<or> position_y (body d) < dangerLineY e then True
      else dangerScan e now ds)"

fun emergencyCount :: "env \<Rightarrow> real \<Rightarrow> CircleData list \<Rightarrow> nat" where
  "emergencyCount e now [] = 0"
| "emergencyCount e now (d # ds) =
     (if now - bornAt d > gracePeriodMs \<and> position_y (body d) < dangerLineY e + 30
      then Suc (emergencyCount e now ds) else emergencyCount e now ds)"

text \<open>What follows the fast path in \<open>checkDangerLine\<close>: the scan of all discs.\<close>

definition fullScan :: "env \<Rightarrow> real \<Rightarrow> game \<Rightarrow> game" where
  "fullScan e now s =
     (if dangerScan e now (map snd (circles s)) then endGame ''Danger line crossed.'' now s
      else if length (circles s) > 12
              \<and> emergencyCount e now (map snd (circles s)) > 6
           then endGame ''Too many circles stacked.'' now s
      else s)"

definition checkDangerLine :: "env \<Rightarrow> real \<Rightarrow> game \<Rightarrow> game" where
  "checkDangerLine e now s =
     (if highestCircleTop s > dangerLineY e then s else fullScan e now s)"

subsection \<open>Drop placement\<close>

definition hypot :: "real \<Rightarrow> real \<Rightarrow> real" where
  "hypot dx dy = sqrt (dx * dx + dy * dy)"

text \<open>The loop of \<open>isSpawnFree\<close>: False when some disc is too close.\<close>

fun clearOfDiscs :: "env \<Rightarrow> real \<Rightarrow> real \<Rightarrow> real \<Rightarrow> CircleData list \<Rightarrow> bool" where
  "clearOfDiscs e x y spawnRadius [] = True"
| "clearOfDiscs e x y spawnRadius (d # ds) =
     (let dx = x - position_x (body d);
          dy = y - position_y (body d);
          existingRadius = getRadiusForValue e (circle_value d);
          minDistance = (spawnRadius + existingRadius) * 1.1
      in if hypot dx dy < minDistance then False else clearOfDiscs e x y spawnRadius ds)"

definition isSpawnFree :: "env \<Rightarrow> real \<Rightarrow> real \<Rightarrow> int \<Rightarrow> game \<Rightarrow> bool" where
  "isSpawnFree e x y v s =
     (let spawnRadius = getRadiusForValue e v
      in if \<not> clearOfDiscs e x y spawnRadius (map snd (circles s)) then False
         else y \<ge> spawnRadius \<and> y \<le> boardH e - spawnRadius
              \<and> x \<ge> spawnRadius \<and> x \<le> boardW e - spawnRadius)"

text \<open>
  The first loop of \<open>tryDrop\<close>, \<open>for (let i = 1; i <= 6; i++)\<close>, from \<open>i\<close> on with
  \<open>n\<close> iterations left: the position found, if any.
\<close>

fun stepSearch :: "env \<Rightarrow> game \<Rightarrow> int \<Rightarrow> real \<Rightarrow> real \<Rightarrow> real \<Rightarrow> real \<Rightarrow> nat \<Rightarrow> nat \<Rightarrow> real option" where
  "stepSearch e s v radius step x y i 0 = None"
| "stepSearch e s v radius step x y i (Suc n) =
     (let xl = x - real i * step; xr = x + real i * step
      in if xl \<ge> radius \<and> isSpawnFree e xl y v s then Some xl
         else if xr \<le> boardW e - radius \<and> isSpawnFree e xr y v s then Some xr
         else stepSearch e s v radius step x y (Suc i) n)"

text \<open>
  The second loop, \<open>for (let i = 0; i <= 6; i++)\<close>, with
  \<open>testX = previewX + (i % 2 === 0 ? 1 : -1) * Math.floor(i / 2) * step\<close>.
\<close>

fun zigzagSearch :: "env \<Rightarrow> game \<Rightarrow> int \<Rightarrow> real \<Rightarrow> real \<Rightarrow> real \<Rightarrow> nat \<Rightarrow> nat \<Rightarrow> real option" where
  "zigzagSearch e s v radius step safeY i 0 = None"
| "zigzagSearch e s v radius step safeY i (Suc n) =
     (let testX = previewX s + (if i mod 2 = 0 then 1 else -1) * real (i div 2) * step
      in if testX \<ge> radius \<and> testX \<le> boardW e - radius \<and> isSpawnFree e testX safeY v s
         then Some testX
         else zigzagSearch e s v radius step safeY (Suc i) n)"

text \<open>
  The placement part of \<open>tryDrop\<close>: the x coordinate at which \<open>createCircle\<close> is
  called, or None when \<open>placed\<close> stays false.
\<close>

definition findPlacement :: "env \<Rightarrow> game \<Rightarrow> real option" where
  "findPlacement e s =
     (let v = nextValue s;
          radius = getRadiusForValue e v;
          x = previewX s;
          y = spawnY e
      in if isSpawnFree e x y v s then Some x
         else
           let step = radius * 1.1
           in case stepSearch e s v radius step x y 1 6 of
                Some x' \<Rightarrow> Some x'
              | None \<Rightarrow> zigzagSearch e s v radius step (spawnY e) 0 7)"

definition tryDrop :: "env \<Rightarrow> real \<Rightarrow> game \<Rightarrow> game" where
  "tryDrop e now s =
     (if \<not> running s \<or> ended s \<or> paused s then s
      else if now - lastDropTs s < dropCooldownMs then s
      else case findPlacement e s of
             None \<Rightarrow> endGame ''No space to spawn.'' now s
           | Some x \<Rightarrow>
               let (C, s1) = createCircle e x (spawnY e) (nextValue s) now s
               in case C of
                    None \<Rightarrow> s1
                  | Some c \<Rightarrow>
                      let s2 = s1\<lparr> nextValue := rollValue (mathRandom e (randomPos s1)),
                                   randomPos := Suc (randomPos s1) \<rparr>;
                          s3 = s2\<lparr> store := setState now
                                  (noUpdate\<lparr> p_nextValue := Some (nextValue s2) \<rparr>) (store s2) \<rparr>
                      in s3\<lparr> lastDropTs := now \<rparr>)"

subsection \<open>Restart and pause\<close>

definition restart :: "env \<Rightarrow> real \<Rightarrow> game \<Rightarrow> game" where
  "restart e now s =
     (let s1 = s\<lparr> timeScale := 0,
                  world := foldl (\<lambda>w d. remove1 (body_id (body d)) w) (world s)
                             (map snd (circles s)) \<rparr>;
          s2 = s1\<lparr> circles := [], mergingCircles := {}, animations := [], mergeQueue := [],
                   particlePool := pool_clear (particlePool s1) \<rparr>;
          s3 = s2\<lparr> score := 0,
                   nextValue := rollValue (mathRandom e (randomPos s2)),
                   randomPos := Suc (randomPos s2),
                   running := True, paused := False, ended := False, endReason := [],
                   lastDropTs := 0, previewX := boardW e / 2, nextLocalId := 1,
                   highestCircleTop := boardH e \<rparr>;
          s4 = s3\<lparr> store := setState now
                   \<lparr> p_score = Some 0, p_best = Some (best s3),
                     p_nextValue = Some (nextValue s3), p_running = Some True,
                     p_paused = Some False, p_ended = Some False, p_endReason = Some [] \<rparr>
                   (store s3),
                 showModal := False \<rparr>;
          s5 = s4\<lparr> timers := timers s4 @ [(now + 30, TimeScaleTimeout)] \<rparr>
      in showToastMessage ''New game started'' now s5)"

definition togglePause :: "real \<Rightarrow> game \<Rightarrow> game" where
  "togglePause now s =
     (if ended s then s
      else
        let s1 = s\<lparr> paused := \<not> paused s \<rparr>;
            s2 = s1\<lparr> timeScale := (if paused s1 then 0 else 1) \<rparr>;
            s3 = s2\<lparr> store := setState now (noUpdate\<lparr> p_paused := Some (paused s2) \<rparr>) (store s2) \<rparr>
        in showToastMessage (if paused s3 then ''Paused'' else ''Resumed'') now s3)"

subsection \<open>The game loop\<close>

text \<open>
  \<open>Engine.update\<close> of Matter.js integrates the bodies and then calls the collisionStart
  handler with the pairs that started to collide. The integration result is an input
  of the model: \<open>motion\<close> gives each body its new position and velocity, and the engine
  clears the forces.
\<close>

definition moveBody :: "(nat \<Rightarrow> real \<times> real \<times> real \<times> real) \<Rightarrow> CircleData \<Rightarrow> CircleData" where
  "moveBody motion d =
     (case motion (body_id (body d)) of
        (x, y, vx, vy) \<Rightarrow>
          d\<lparr> body := (body d)\<lparr> position_x := x, position_y := y,
                                velocity_x := vx, velocity_y := vy,
                                force_x := 0, force_y := 0 \<rparr> \<rparr>)"

definition engineUpdate ::
  "(nat \<Rightarrow> real \<times> real \<times> real \<times> real) \<Rightarrow> (Body \<times> Body) list \<Rightarrow> real \<Rightarrow> game \<Rightarrow> game" where
  "engineUpdate motion pairs now s =
     collisionStart now pairs
       (s\<lparr> circles := map (\<lambda>(k, d). (k, moveBody motion d)) (circles s) \<rparr>)"

text \<open>The callback that \<open>gameStep\<close> hands to the step runner, run once per fixed step.\<close>

definition fixedStep ::
  "env \<Rightarrow> (nat \<Rightarrow> real \<times> real \<times> real \<times> real) \<Rightarrow> (Body \<times> Body) list \<Rightarrow> real \<Rightarrow> game \<Rightarrow> game" where
  "fixedStep e motion pairs now s =
     (if running s \<and> \<not> paused s
      then checkDangerLine e now
             (updateHighestCircle e
                (processMergeQueue e now (engineUpdate motion pairs now s)))
      else s)"

text \<open>
  What can happen to the game: a drop request, a fixed step, a timer firing, a restart,
  a pause toggle.
\<close>

datatype event =
    Drop real
  | Step "nat \<Rightarrow> real \<times> real \<times> real \<times> real" "(Body \<times> Body) list" real
  | Fire real nat
  | Restart real
  | TogglePause real

fun handle :: "env \<Rightarrow> game \<Rightarrow> event \<Rightarrow> game" where
  "handle e s (Drop now) = tryDrop e now s"
| "handle e s (Step motion pairs now) = fixedStep e motion pairs now s"
| "handle e s (Fire now k) = fireTimer e now k s"
| "handle e s (Restart now) = restart e now s"
| "handle e s (TogglePause now) = togglePause now s"

definition run :: "env \<Rightarrow> event list \<Rightarrow> game \<Rightarrow> game" where
  "run e evs s = foldl (handle e) s evs"

subsection \<open>Specification-side notions for collisions and merges\<close>

text \<open>
  The eligibility of a collision pair in the words of the specification: both bodies are
  discs of the table (not walls), their values are equal, neither is in the mid-merge
  set, and the three speeds are strictly below their limits. \<open>requestFor\<close> is the
  request such a pair is queued as.
\<close>

definition mergeEligible :: "game \<Rightarrow> Body \<times> Body \<Rightarrow> bool" where
  "mergeEligible s pair =
     (let bodyA = fst pair; bodyB = snd pair
      in body_label bodyA = ''circle'' \<and> body_label bodyB = ''circle''
         \<and> (case (map_of (circles s) (body_id bodyA), map_of (circles s) (body_id bodyB)) of
               (Some A, Some B) \<Rightarrow>
                 circle_value A = circle_value B
                 \<and> body_id bodyA \<notin> mergingCircles s \<and> body_id bodyB \<notin> mergingCircles s
                 \<and> magnitude (velocity_x bodyA) (velocity_y bodyA) < mergeSpeedMax
                 \<and> magnitude (velocity_x bodyB) (velocity_y bodyB) < mergeSpeedMax
                 \<and> magnitude (velocity_x bodyA - velocity_x bodyB)
                               (velocity_y bodyA - velocity_y bodyB) < mergeRelSpeedMax
             | _ \<Rightarrow> False))"

definition requestFor :: "real \<Rightarrow> game \<Rightarrow> Body \<times> Body \<Rightarrow> MergeRequest" where
  "requestFor now s pair =
     mkRequest now (fst pair) (snd pair)
       (case map_of (circles s) (body_id (fst pair)) of Some A \<Rightarrow> circle_value A | None \<Rightarrow> 0)"

text \<open>
  One iteration of the loop of \<open>processMergeQueue\<close> on the request just shifted off
  the queue.
\<close>

definition resolveOne :: "env \<Rightarrow> real \<Rightarrow> MergeRequest \<Rightarrow> game \<Rightarrow> game" where
  "resolveOne e now m s =
     (case (map_of (circles s) (bodyAId m), map_of (circles s) (bodyBId m)) of
        (Some A, Some B) \<Rightarrow>
          if body_id (body A) \<in> mergingCircles s \<or> body_id (body B) \<in> mergingCircles s
          then s
          else performMerge e now A B (req_x m) (req_y m) s
      | _ \<Rightarrow> s)"

text \<open>
  The value a pending merge timer will spawn; a timer that is the completion of a merge
  of two discs of the table, due 300 ms after \<open>now\<close>, with the doubled value of both;
  a request whose two discs, if both are in the table, have equal values.
\<close>

definition mergedValue :: "real \<times> Timer \<Rightarrow> int" where
  "mergedValue t = (case snd t of MergeTimeout A B x y newValue \<Rightarrow> newValue | _ \<Rightarrow> 0)"

definition isMergeOf :: "(nat \<times> CircleData) list \<Rightarrow> real \<Rightarrow> real \<times> Timer \<Rightarrow> bool" where
  "isMergeOf cs now t =
     (case snd t of
        MergeTimeout A B x y newValue \<Rightarrow>
          fst t = now + 300 \<and> A \<in> snd ` set cs \<and> B \<in> snd ` set cs
          \<and> newValue = 2 * circle_value A \<and> newValue = 2 * circle_value B
      | _ \<Rightarrow> False)"

definition requestAgrees :: "(nat \<times> CircleData) list \<Rightarrow> MergeRequest \<Rightarrow> bool" where
  "requestAgrees cs m =
     (case (map_of cs (bodyAId m), map_of cs (bodyBId m)) of
        (Some A, Some B) \<Rightarrow> circle_value A = circle_value B
      | _ \<Rightarrow> True)"

text \<open>
  A pending completion whose value is the double of the values of both its discs. The
  completions a single event schedules: those a fixed step appends to the pending timers
  (no other event resolves a merge). The completions scheduled in the course of a list
  of events since the last restart, which starts a new session with score 0.
\<close>

definition doubledValue :: "real \<times> Timer \<Rightarrow> bool" where
  "doubledValue t =
     (case snd t of
        MergeTimeout A B x y newValue \<Rightarrow>
          newValue = 2 * circle_value A \<and> newValue = 2 * circle_value B
      | _ \<Rightarrow> False)"

fun isRestart :: "event \<Rightarrow> bool" where
  "isRestart (Restart now) = True"
| "isRestart _ = False"

fun isStep :: "event \<Rightarrow> bool" where
  "isStep (Step motion pairs now) = True"
| "isStep _ = False"

definition scheduledBy :: "env \<Rightarrow> game \<Rightarrow> event \<Rightarrow> (real \<times> Timer) list" where
  "scheduledBy e s ev =
     (if isStep ev then drop (length (timers s)) (timers (handle e s ev)) else [])"

fun resolvedInSession ::
  "env \<Rightarrow> game \<Rightarrow> event list \<Rightarrow> (real \<times> Timer) list \<Rightarrow> (real \<times> Timer) list" where
  "resolvedInSession e s [] acc = acc"
| "resolvedInSession e s (ev # evs) acc =
     resolvedInSession e (handle e s ev) evs
       (if isRestart ev then [] else acc @ scheduledBy e s ev)"

subsection \<open>Specification-side notions for the disc table and the danger check\<close>

text \<open>
  A table within capacity: no identifier appears twice and there are at most
  \<open>maxCircles\<close> discs. \<open>setPosition\<close> is \<open>Body.setPosition\<close> of Matter.js on the body of
  the disc \<open>k\<close>. Two discs are the same as far as the discs past their grace period
  go: they were born at the same time, and are equal if that time is more than
  \<open>gracePeriodMs\<close> ago.
\<close>

definition withinCapacity :: "game \<Rightarrow> bool" where
  "withinCapacity s \<longleftrightarrow> distinct (map fst (circles s)) \<and> length (circles s) \<le> maxCircles"

definition setPosition :: "nat \<Rightarrow> real \<Rightarrow> real \<Rightarrow> game \<Rightarrow> game" where
  "setPosition k x y s =
     s\<lparr> circles :=
          map (\<lambda>(k', d). if k' = k
                 then (k', d\<lparr> body := (body d)\<lparr> position_x := x, position_y := y \<rparr> \<rparr>)
                 else (k', d))
            (circles s) \<rparr>"

definition sameOldDiscs :: "real \<Rightarrow> CircleData \<Rightarrow> CircleData \<Rightarrow> bool" where
  "sameOldDiscs now d d' \<longleftrightarrow>
     bornAt d' = bornAt d \<and> (now - bornAt d > gracePeriodMs \<longrightarrow> d' = d)"

text \<open>
  The positions a drop tries, in order: the preview position, the stepped offsets to the
  left and to the right for i = 1..6, then the zig-zag sequence for i = 0..6.
\<close>

definition candidates :: "env \<Rightarrow> game \<Rightarrow> real list" where
  "candidates e s =
     (let x = previewX s; step = getRadiusForValue e (nextValue s) * 1.1
      in [x]
         @ concat (map (\<lambda>i. [x - real i * step, x + real i * step]) [1..<7])
         @ map (\<lambda>i. x + (if i mod 2 = 0 then 1 else -1) * real (i div 2) * step) [0..<7])"

subsection \<open>Initialisation\<close>

text \<open>
  The object \<open>state\<close> and the other variables as \<open>initGame\<close> creates them, and the
  store after the two \<open>store.setState\<close> calls made before the game starts (the first at
  the time \<open>t0\<close> of the effect, the second at \<open>now\<close>). \<open>firstBodyId\<close> is the identifier
  Matter.js will give to the next body once the engine and the four walls exist.
  \<open>initGame\<close> ends with a call of \<open>restart\<close>.
\<close>

definition initialState :: "env \<Rightarrow> int \<Rightarrow> nat \<Rightarrow> real \<Rightarrow> real \<Rightarrow> game" where
  "initialState e savedBest firstBodyId t0 now =
     (let v = rollValue (mathRandom e 0);
          store0 = GameStateStore_new
            \<lparr> score = 0, best = 0, nextValue = 2, running = False, paused = False,
              ended = False, endReason = [] \<rparr>;
          store1 = setState t0 (noUpdate\<lparr> p_best := Some savedBest \<rparr>) store0;
          store2 = setState now
            \<lparr> p_score = Some 0, p_best = Some savedBest, p_nextValue = Some v,
              p_running = Some False, p_paused = Some False, p_ended = Some False,
              p_endReason = Some [] \<rparr> store1
      in \<lparr> score = 0, best = savedBest, nextValue = v, running = False, paused = False,
           ended = False, endReason = [],
           previewX = boardW e / 2, lastDropTs = now, circles = [], nextLocalId = 1,
           mergingCircles = {}, animations = [], mergeQueue = [],
           highestCircleTop = boardH e, previewUpdateTime = 0,
           particlePool = ParticlePool_new 300, store = store2, lastBestSave = 0,
           localBest = savedBest, world = [], nextBodyId = firstBodyId, timeScale = 1,
           timers = [], showModal = False, showToast = False, toastMessage = [],
           lastParticleUpdate = 0, randomPos = 1 \<rparr>)"

definition initGame :: "env \<Rightarrow> int \<Rightarrow> nat \<Rightarrow> real \<Rightarrow> real \<Rightarrow> game" where
  "initGame e savedBest firstBodyId t0 now =
     restart e now (initialState e savedBest firstBodyId t0 now)"

subsection \<open>Concrete states used in the examples\<close>

text \<open>
  A pool of two slots whose slot 0 was acquired for a particle born at time 0 with a
  life of 600 ms.
\<close>

definition onePoolParticle :: ParticlePool where
  "onePoolParticle =
     (snd (acquire (ParticlePool_new 2)))
       \<lparr> pool_life := [600, 0], pool_maxLife := [600, 0], pool_startTime := [0, 0] \<rparr>"

definition emptyGameState :: GameState where
  "emptyGameState =
     \<lparr> score = 0, best = 0, nextValue = 2, running = False, paused = False,
       ended = False, endReason = [] \<rparr>"

definition storeWithListener :: GameStateStore where
  "storeWithListener = subscribe 1 (GameStateStore_new emptyGameState)"

definition endUpdate :: PartialGameState where
  "endUpdate = noUpdate\<lparr> p_ended := Some True, p_running := Some False,
                         p_endReason := Some ''Danger line crossed.'' \<rparr>"

text \<open>
  A desktop board of 600 by 800 on which \<open>Math.random()\<close> always returns 0 (every
  rolled value is 2), and a phone board of 280 by 400.
\<close>

definition desktop :: env where
  "desktop = \<lparr> dynamicBoardW = 600, dynamicBoardH = 800, isMobile = False,
               mathRandom = (\<lambda>_. 0) \<rparr>"

definition phone :: env where
  "phone = \<lparr> dynamicBoardW = 280, dynamicBoardH = 400, isMobile = True,
             mathRandom = (\<lambda>_. 0) \<rparr>"

definition newGame :: game where
  "newGame = initGame desktop 0 5 10 1000"


text \<open>
  Two discs of value 2 at rest on the floor of the desktop board, side by side, and
  bodies with the identifiers of the two discs at several velocities, and a wall.
\<close>

definition twoDiscs :: game where
  "twoDiscs = snd (createCircle desktop 335 700 2 2000
                (snd (createCircle desktop 265 700 2 1500 newGame)))"

definition discBody :: "nat \<Rightarrow> real \<Rightarrow> real \<Rightarrow> Body" where
  "discBody i x vx =
     \<lparr> body_id = i, body_label = ''circle'', position_x = x, position_y = 700,
       velocity_x = vx, velocity_y = 0, force_x = 0, force_y = 0 \<rparr>"

definition wallBody :: Body where
  "wallBody = \<lparr> body_id = 1, body_label = ''wall'', position_x = -34, position_y = 400,
                velocity_x = 0, velocity_y = 0, force_x = 0, force_y = 0 \<rparr>"

definition discData :: "nat \<Rightarrow> real \<Rightarrow> real \<Rightarrow> nat \<Rightarrow> CircleData" where
  "discData i x born n =
     \<lparr> body = discBody i x 0, circle_value = 2, bornAt = born, circle_id = n \<rparr>"

text \<open>The motion of a step in which the two discs move towards each other.\<close>

definition approach :: "nat \<Rightarrow> real \<times> real \<times> real \<times> real" where
  "approach i = (if i = 5 then (265, 700, 25, 0) else (335, 700, -25, 0))"

text \<open>
  A full table of 150 discs. A phone board near its end: thirteen discs of value 2 born
  at time 1000, six on the floor and seven with their centre 23.4 below the danger line
  (three pairs in the middle of a merge glide, each pair on one spot, and one disc alone).
\<close>

definition fullBoard :: game where
  "fullBoard = newGame\<lparr> circles := map (\<lambda>i. (i, discData i (real i) 0 i)) [5..<155] \<rparr>"

definition phoneDisc :: "nat \<Rightarrow> real \<Rightarrow> real \<Rightarrow> nat \<times> CircleData" where
  "phoneDisc i x y =
     (i, \<lparr> body = \<lparr> body_id = i, body_label = ''circle'', position_x = x, position_y = y,
                    velocity_x = 0, velocity_y = 0, force_x = 0, force_y = 0 \<rparr>,
           circle_value = 2, bornAt = 1000, circle_id = i - 4 \<rparr>)"

definition crowded :: game where
  "crowded =
     (initGame phone 0 5 10 1000)
       \<lparr> circles :=
           [phoneDisc 5 30 377.6, phoneDisc 6 75 377.6, phoneDisc 7 120 377.6,
            phoneDisc 8 165 377.6, phoneDisc 9 210 377.6, phoneDisc 10 255 377.6,
            phoneDisc 11 30 103.4, phoneDisc 12 30 103.4, phoneDisc 13 100 103.4,
            phoneDisc 14 100 103.4, phoneDisc 15 170 103.4, phoneDisc 16 170 103.4,
            phoneDisc 17 240 103.4],
         mergingCircles := {11, 12, 13, 14, 15, 16},
         nextBodyId := 18, nextLocalId := 14 \<rparr>"

text \<open>
  The phone board with twelve discs past their grace period, seven of them with their
  centre 23.4 below the danger line, and the disc that a drop at time 4900 adds at the
  spawn point.
\<close>

definition stacked12 :: game where
  "stacked12 =
     (initGame phone 0 5 10 1000)
       \<lparr> circles :=
           [phoneDisc 5 30 377.6, phoneDisc 6 75 377.6, phoneDisc 7 120 377.6,
            phoneDisc 8 165 377.6, phoneDisc 9 210 377.6,
            phoneDisc 10 30 103.4, phoneDisc 11 30 103.4, phoneDisc 12 100 103.4,
            phoneDisc 13 100 103.4, phoneDisc 14 170 103.4, phoneDisc 15 170 103.4,
            phoneDisc 16 240 103.4],
         mergingCircles := {10, 11, 12, 13, 14, 15},
         nextBodyId := 17, nextLocalId := 13 \<rparr>"

definition droppedDisc :: "nat \<times> CircleData" where
  "droppedDisc =
     (17, \<lparr> body = \<lparr> body_id = 17, body_label = ''circle'', position_x = 140,
                     position_y = 35.84, velocity_x = 0, velocity_y = 0,
                     force_x = 0, force_y = 0 \<rparr>,
            circle_value = 2, bornAt = 4900, circle_id = 13 \<rparr>)"

text \<open>
  Discs of value 2 on the spawn row of the desktop board (y = 54.4): one at the default
  spawn point, and a row of seven that leaves no position of the search free.
\<close>

definition spawnRowDisc :: "nat \<Rightarrow> real \<Rightarrow> nat \<times> CircleData" where
  "spawnRowDisc i x =
     (i, \<lparr> body = \<lparr> body_id = i, body_label = ''circle'', position_x = x, position_y = 54.4,
                    velocity_x = 0, velocity_y = 0, force_x = 0, force_y = 0 \<rparr>,
           circle_value = 2, bornAt = 1500, circle_id = i - 4 \<rparr>)"

definition blockedSpawn :: game where
  "blockedSpawn = newGame\<lparr> circles := [spawnRowDisc 5 300], nextBodyId := 6, nextLocalId := 2 \<rparr>"

definition blockedRow :: game where
  "blockedRow =
     newGame\<lparr> circles := [spawnRowDisc 5 75.6, spawnRowDisc 6 150.4, spawnRowDisc 7 225.2,
                           spawnRowDisc 8 300, spawnRowDisc 9 374.8, spawnRowDisc 10 449.6,
                           spawnRowDisc 11 524.4],
              nextBodyId := 12, nextLocalId := 8 \<rparr>"

section \<open>Properties\<close>

subsection \<open>Auxiliary facts\<close>

declare processMergeQueue.simps [simp del]

lemma update_mem: "(k, v) \<in> set (AList.update k v al)"
  by (induction al) auto

lemma length_update_le: "length (AList.update k v al) \<le> Suc (length al)"
  by (induction al) auto

lemma sqrt_sum_squares_less_iff:
  "sqrt (a * a + b * b) < m \<longleftrightarrow> 0 < m \<and> a * a + b * b < m * m"
proof (cases "0 < m")
  case True
  then have "sqrt (m * m) = m" by simp
  then have "sqrt (a * a + b * b) < m \<longleftrightarrow> sqrt (a * a + b * b) < sqrt (m * m)" by simp
  also have "\<dots> \<longleftrightarrow> a * a + b * b < m * m" by (rule real_sqrt_less_iff)
  finally show ?thesis using True by simp
next
  case False
  have "0 \<le> sqrt (a * a + b * b)" by simp
  with False show ?thesis by linarith
qed

lemma magnitude_less_iff:
  "magnitude vx vy < m \<longleftrightarrow> 0 < m \<and> vx * vx + vy * vy < m * m"
  by (simp add: magnitude_def sqrt_sum_squares_less_iff)

lemma hypot_less_iff:
  "hypot dx dy < m \<longleftrightarrow> 0 < m \<and> dx * dx + dy * dy < m * m"
  by (simp add: hypot_def sqrt_sum_squares_less_iff)

text \<open>The fields of the concrete states.\<close>

lemma newGame_fields:
  "circles newGame = []" "mergingCircles newGame = {}" "mergeQueue newGame = []"
  "nextBodyId newGame = 5" "nextLocalId newGame = 1" "score newGame = 0"
  "running newGame" "\<not> paused newGame" "\<not> ended newGame" "lastDropTs newGame = 0"
  "previewX newGame = 300" "nextValue newGame = 2" "highestCircleTop newGame = 800"
  by (simp_all add: newGame_def initGame_def initialState_def restart_def showToastMessage_def desktop_def
      boardW_def boardH_def rollValue_def valueDist_def Let_def)

lemma twoDiscs_fields:
  "circles twoDiscs = [(5, discData 5 265 1500 1), (6, discData 6 335 2000 2)]"
  "mergingCircles twoDiscs = {}" "mergeQueue twoDiscs = []"
  "nextBodyId twoDiscs = 7" "score twoDiscs = 0"
  by (simp_all add: twoDiscs_def createCircle_def newGame_fields maxCircles_def Let_def
      discData_def discBody_def)

lemma discBody_sel [simp]:
  "body_id (discBody i x v) = i" "body_label (discBody i x v) = ''circle''"
  "position_x (discBody i x v) = x" "position_y (discBody i x v) = 700"
  "velocity_x (discBody i x v) = v" "velocity_y (discBody i x v) = 0"
  by (simp_all add: discBody_def)

lemma discData_sel [simp]:
  "body (discData i x b n) = discBody i x 0" "circle_value (discData i x b n) = 2"
  "bornAt (discData i x b n) = b" "circle_id (discData i x b n) = n"
  by (simp_all add: discData_def)

lemma wallBody_sel [simp]: "body_label wallBody = ''wall''" "body_id wallBody = 1"
  by (simp_all add: wallBody_def)

lemma moveBody_sel [simp]:
  "circle_value (moveBody motion d) = circle_value d"
  "body_id (body (moveBody motion d)) = body_id (body d)"
  "bornAt (moveBody motion d) = bornAt d"
  by (simp_all add: moveBody_def split: prod.splits)

lemma twoDiscs_more_fields:
  "running twoDiscs" "\<not> paused twoDiscs" "\<not> ended twoDiscs"
  "timers twoDiscs = [(1030, TimeScaleTimeout), (2200, ToastTimeout)]"
  by (simp_all add: twoDiscs_def createCircle_def newGame_fields maxCircles_def Let_def
      newGame_def initGame_def initialState_def restart_def showToastMessage_def)

lemma log_2_16: "log 2 16 = 4"
proof -
  have "log 2 16 = log 2 (2 ^ 4)" by simp
  also have "\<dots> = real 4 * log 2 2" by (rule log_nat_power) simp
  finally show ?thesis by simp
qed

lemma desktop_consts:
  "getRadiusForValue desktop 2 = 34" "spawnY desktop = 54.4" "boardW desktop = 600"
  "boardH desktop = 800" "dangerLineY desktop = 120"
  by (simp_all add: getRadiusForValue_def spawnY_def dangerLineY_def boardW_def boardH_def
      desktop_def Let_def log_2_16)

subsection \<open>ParticlePool.release\<close>

lemma release_out_of_range:
  "index < 0 \<or> index \<ge> capacity p \<Longrightarrow> release p index = p"
  by (simp add: release_def)

lemma release_keeps_arrays:
  "pool_x (release p i) = pool_x p \<and> pool_y (release p i) = pool_y p
   \<and> pool_vx (release p i) = pool_vx p \<and> pool_vy (release p i) = pool_vy p
   \<and> pool_size (release p i) = pool_size p \<and> pool_maxSize (release p i) = pool_maxSize p
   \<and> pool_life (release p i) = pool_life p \<and> pool_maxLife (release p i) = pool_maxLife p
   \<and> pool_startTime (release p i) = pool_startTime p
   \<and> pool_colorIndex (release p i) = pool_colorIndex p
   \<and> capacity (release p i) = capacity p"
  by (simp add: release_def)

text \<open>
  \<open>updateParticles\<close> never resets \<open>life\<close> of a slot it releases, so the next call
  releases the same slot again: after two calls the free list of a pool of capacity 2
  has three entries and \<open>count\<close> is negative.
\<close>

lemma updateParticles_releases_twice:
  "freeList (fst (updateParticles 60 700 (onePoolParticle, 0))) = [1, 0]
   \<and> count (fst (updateParticles 60 700 (onePoolParticle, 0))) = 0
   \<and> freeList (fst (updateParticles 60 720 (updateParticles 60 700 (onePoolParticle, 0))))
       = [1, 0, 0]
   \<and> count (fst (updateParticles 60 720 (updateParticles 60 700 (onePoolParticle, 0)))) = -1"
  by (simp add: updateParticles_def onePoolParticle_def acquire_def release_def
      ParticlePool_new_def initialFreeList_def upt_rec numeral_2_eq_2 Let_def)

text \<open>
  C2: release with an index out of range is a no-op, and so is the release of a slot
  that is already free. The second half fails: in a new pool of two slots, acquire
  gives slot 0; releasing it twice leaves the free list \<open>[1, 0, 0]\<close> and the count
  \<open>-1\<close>, a state different from the one after the first release, and the next two
  calls of acquire both return slot 0.
\<close>

theorem release_twice_changes_pool:
  "fst (acquire (ParticlePool_new 2)) = 0
   \<and> freeList (release (snd (acquire (ParticlePool_new 2))) 0) = [1, 0]
   \<and> freeList (release (release (snd (acquire (ParticlePool_new 2))) 0) 0) = [1, 0, 0]
   \<and> count (release (release (snd (acquire (ParticlePool_new 2))) 0) 0) = -1
   \<and> release (release (snd (acquire (ParticlePool_new 2))) 0) 0
       \<noteq> release (snd (acquire (ParticlePool_new 2))) 0
   \<and> fst (acquire (release (release (snd (acquire (ParticlePool_new 2))) 0) 0)) = 0
   \<and> fst (acquire (snd (acquire
        (release (release (snd (acquire (ParticlePool_new 2))) 0) 0)))) = 0"
  by (simp add: acquire_def release_def ParticlePool_new_def initialFreeList_def
      upt_rec numeral_2_eq_2)

subsection \<open>GameStateStore.setState\<close>

text \<open>
  C10: setState throttles by dropping. A call that arrives less than 100 ms after the
  last accepted update returns the store as it was: state, throttle stamp and the log of
  listener calls are unchanged. An accepted call stores the spread of the old state and
  the partial update and calls every listener once; whether accepted or not, a field
  absent from the partial update keeps its value.
\<close>

theorem setState_throttle_drops:
  "(now - updateThrottle st < throttleMs \<longrightarrow>
      setState now n st = st \<and> notified (setState now n st) = notified st)
   \<and> (now - updateThrottle st \<ge> throttleMs \<longrightarrow>
      setState now n st = st\<lparr> updateThrottle := now, state := spread (state st) n,
                               notified := notified st @ listeners st \<rparr>)
   \<and> (p_score n = None \<longrightarrow> score (state (setState now n st)) = score (state st))
   \<and> (p_best n = None \<longrightarrow> best (state (setState now n st)) = best (state st))
   \<and> (p_nextValue n = None \<longrightarrow> nextValue (state (setState now n st)) = nextValue (state st))
   \<and> (p_running n = None \<longrightarrow> running (state (setState now n st)) = running (state st))
   \<and> (p_paused n = None \<longrightarrow> paused (state (setState now n st)) = paused (state st))
   \<and> (p_ended n = None \<longrightarrow> ended (state (setState now n st)) = ended (state st))
   \<and> (p_endReason n = None \<longrightarrow> endReason (state (setState now n st)) = endReason (state st))"
  by (simp add: setState_def spread_def)

theorem setState_throttle_drops_witness:
  "(50::real) - updateThrottle storeWithListener < throttleMs
   \<and> setState 50 endUpdate storeWithListener = storeWithListener
   \<and> \<not> ended (state (setState 50 endUpdate storeWithListener))
   \<and> throttleMs \<le> 150 - updateThrottle storeWithListener
   \<and> ended (state (setState 150 endUpdate storeWithListener))
   \<and> notified (setState 150 endUpdate storeWithListener) = [1]
   \<and> p_score endUpdate = None
   \<and> score (state (setState 150 endUpdate storeWithListener)) = 0"
  using setState_throttle_drops [of 50 storeWithListener endUpdate]
    setState_throttle_drops [of 150 storeWithListener endUpdate]
  by (simp add: storeWithListener_def subscribe_def GameStateStore_new_def emptyGameState_def
      endUpdate_def noUpdate_def throttleMs_def spread_def)

text \<open>
  A consequence for the session end: when endGame runs less than 100 ms after an
  accepted store update, the game state is ended while the store still shows the
  session as it was.
\<close>

lemma endGame_store_update_dropped:
  "\<not> ended s \<Longrightarrow> now - updateThrottle (store s) < throttleMs \<Longrightarrow>
   ended (endGame reason now s) \<and> store (endGame reason now s) = store s"
  by (simp add: endGame_def setState_def)

subsection \<open>endGame\<close>

text \<open>
  C6: the session-end trigger is idempotent. On a session that has ended, endGame with
  any reason returns the state unchanged; so a second call after a first one changes
  nothing, and the reason that stays is the first one.
\<close>

theorem endGame_idempotent:
  "(ended s \<longrightarrow> endGame reason now s = s)
   \<and> endGame r2 t2 (endGame r1 t1 s) = endGame r1 t1 s
   \<and> (\<not> ended s \<longrightarrow>
        endReason (endGame r2 t2 (endGame r1 t1 s)) = r1
        \<and> ended (endGame r2 t2 (endGame r1 t1 s))
        \<and> \<not> running (endGame r2 t2 (endGame r1 t1 s)))"
  by (simp add: endGame_def)

theorem endGame_idempotent_witness:
  "\<not> ended newGame
   \<and> ended (endGame ''Danger line crossed.'' 2000 newGame)
   \<and> endGame ''No space to spawn.'' 3000 (endGame ''Danger line crossed.'' 2000 newGame)
       = endGame ''Danger line crossed.'' 2000 newGame
   \<and> endReason (endGame ''No space to spawn.'' 3000
        (endGame ''Danger line crossed.'' 2000 newGame)) = ''Danger line crossed.''"
  using endGame_idempotent [of newGame "''No space to spawn.''" 3000 "''No space to spawn.''" 3000
      "''Danger line crossed.''" 2000]
    endGame_idempotent [of "endGame ''Danger line crossed.'' 2000 newGame"
      "''No space to spawn.''" 3000]
  by (simp add: newGame_def initGame_def restart_def showToastMessage_def endGame_def)

subsection \<open>The collisionStart handler\<close>

lemma collisionPair_eq:
  "collisionPair now s pair =
     (if mergeEligible s pair
      then s\<lparr> mergeQueue := mergeQueue s @ [requestFor now s pair] \<rparr> else s)"
  by (auto simp: collisionPair_def mergeEligible_def requestFor_def canMerge_def Let_def
      split: option.splits)

lemma mergeEligible_mergeQueue [simp]:
  "mergeEligible (s\<lparr> mergeQueue := q \<rparr>) pair = mergeEligible s pair"
  by (simp add: mergeEligible_def Let_def split: option.splits)

lemma requestFor_mergeQueue [simp]:
  "requestFor now (s\<lparr> mergeQueue := q \<rparr>) pair = requestFor now s pair"
  by (simp add: requestFor_def)

lemma collisionStart_eq:
  "collisionStart now pairs s =
     s\<lparr> mergeQueue := mergeQueue s @ map (requestFor now s) (filter (mergeEligible s) pairs) \<rparr>"
proof (induction pairs rule: rev_induct)
  case Nil
  show ?case by (simp add: collisionStart_def)
next
  case (snoc p ps)
  have "collisionStart now (ps @ [p]) s = collisionPair now (collisionStart now ps s) p"
    by (simp add: collisionStart_def)
  then show ?case by (simp add: snoc.IH collisionPair_eq)
qed

lemma requestFor_agrees:
  "mergeEligible s pair \<Longrightarrow> requestAgrees (circles s) (requestFor now s pair)"
  by (auto simp: mergeEligible_def requestAgrees_def requestFor_def mkRequest_def Let_def
      split: option.splits)

lemma collisionStart_agrees:
  "list_all (requestAgrees (circles s)) (mergeQueue s) \<Longrightarrow>
   list_all (requestAgrees (circles (collisionStart now pairs s)))
     (mergeQueue (collisionStart now pairs s))"
  by (auto simp: collisionStart_eq list_all_iff requestFor_agrees)

lemma eligible_examples:
  "\<not> mergeEligible twoDiscs (discBody 5 265 200, discBody 6 335 0)"
  "\<not> mergeEligible twoDiscs (wallBody, discBody 6 335 0)"
  "mergeEligible twoDiscs (discBody 5 265 25, discBody 6 335 (-25))"
  "\<not> mergeEligible twoDiscs (discBody 5 265 150, discBody 6 335 (-150))"
  by (simp_all add: mergeEligible_def twoDiscs_fields magnitude_less_iff
      mergeSpeedMax_def mergeRelSpeedMax_def)

text \<open>
  C3: during a physics step a collision pair of two discs is queued as a merge request
  if and only if the values are equal, neither disc is in the mid-merge set, and both
  speeds are below mergeSpeedMax and the relative speed below mergeRelSpeedMax, all
  strictly; a pair with a wall, or one failing a condition, is not queued. The handler
  appends to the queue exactly the requests of the eligible pairs, in order.
\<close>

theorem collision_enqueues_iff_eligible:
  "collisionStart now pairs s =
     s\<lparr> mergeQueue := mergeQueue s @ map (requestFor now s) (filter (mergeEligible s) pairs) \<rparr>
   \<and> (body_label bodyA = ''circle'' \<and> body_label bodyB = ''circle''
        \<and> map_of (circles s) (body_id bodyA) = Some A
        \<and> map_of (circles s) (body_id bodyB) = Some B \<longrightarrow>
      collisionPair now s (bodyA, bodyB) =
        (if circle_value A = circle_value B
            \<and> body_id bodyA \<notin> mergingCircles s \<and> body_id bodyB \<notin> mergingCircles s
            \<and> sqrt (velocity_x bodyA * velocity_x bodyA + velocity_y bodyA * velocity_y bodyA)
                < mergeSpeedMax
            \<and> sqrt (velocity_x bodyB * velocity_x bodyB + velocity_y bodyB * velocity_y bodyB)
                < mergeSpeedMax
            \<and> sqrt ((velocity_x bodyA - velocity_x bodyB) * (velocity_x bodyA - velocity_x bodyB)
                    + (velocity_y bodyA - velocity_y bodyB) * (velocity_y bodyA - velocity_y bodyB))
                < mergeRelSpeedMax
         then s\<lparr> mergeQueue := mergeQueue s @ [mkRequest now bodyA bodyB (circle_value A)] \<rparr>
         else s))
   \<and> (body_label bodyA \<noteq> ''circle'' \<or> body_label bodyB \<noteq> ''circle'' \<longrightarrow>
        collisionPair now s (bodyA, bodyB) = s \<and> \<not> mergeEligible s (bodyA, bodyB))
   \<and> mergeSpeedMax = 200 \<and> mergeRelSpeedMax = 300"
  by (auto simp: collisionStart_eq collisionPair_eq mergeEligible_def requestFor_def
      magnitude_def mergeSpeedMax_def mergeRelSpeedMax_def)

theorem collision_enqueues_iff_eligible_witness:
  "mergeQueue (collisionStart 3000
      [(discBody 5 265 200, discBody 6 335 0), (wallBody, discBody 6 335 0),
       (discBody 5 265 25, discBody 6 335 (-25)), (discBody 5 265 150, discBody 6 335 (-150))]
      twoDiscs)
     = [mkRequest 3000 (discBody 5 265 25) (discBody 6 335 (-25)) 2]
   \<and> body_label (discBody 5 265 25) = ''circle'' \<and> body_label (discBody 6 335 (-25)) = ''circle''
   \<and> map_of (circles twoDiscs) (body_id (discBody 5 265 25)) = Some (discData 5 265 1500 1)
   \<and> map_of (circles twoDiscs) (body_id (discBody 6 335 (-25))) = Some (discData 6 335 2000 2)
   \<and> mergeQueue (collisionPair 3000 twoDiscs (discBody 5 265 25, discBody 6 335 (-25)))
       = [mkRequest 3000 (discBody 5 265 25) (discBody 6 335 (-25)) 2]
   \<and> body_label wallBody \<noteq> ''circle''
   \<and> collisionPair 3000 twoDiscs (wallBody, discBody 6 335 0) = twoDiscs"
proof -
  note t = collision_enqueues_iff_eligible [of 3000
      "[(discBody 5 265 200, discBody 6 335 0), (wallBody, discBody 6 335 0),
       (discBody 5 265 25, discBody 6 335 (-25)), (discBody 5 265 150, discBody 6 335 (-150))]"
      twoDiscs "discBody 5 265 25" "discBody 6 335 (-25)"
      "discData 5 265 1500 1" "discData 6 335 2000 2"]
  note w = collision_enqueues_iff_eligible [of 3000 "[]" twoDiscs wallBody "discBody 6 335 0"]
  have labels: "body_label (discBody 5 265 25) = ''circle''"
    "body_label (discBody 6 335 (-25)) = ''circle''" "body_label wallBody \<noteq> ''circle''"
    by simp_all
  have lookups: "map_of (circles twoDiscs) (body_id (discBody 5 265 25)) = Some (discData 5 265 1500 1)"
    "map_of (circles twoDiscs) (body_id (discBody 6 335 (-25))) = Some (discData 6 335 2000 2)"
    by (simp_all add: twoDiscs_fields)
  have 1: "mergeQueue (collisionStart 3000
      [(discBody 5 265 200, discBody 6 335 0), (wallBody, discBody 6 335 0),
       (discBody 5 265 25, discBody 6 335 (-25)), (discBody 5 265 150, discBody 6 335 (-150))]
      twoDiscs)
     = [mkRequest 3000 (discBody 5 265 25) (discBody 6 335 (-25)) 2]"
    by (subst t [THEN conjunct1])
      (simp add: eligible_examples twoDiscs_fields requestFor_def)
  have 2: "mergeQueue (collisionPair 3000 twoDiscs (discBody 5 265 25, discBody 6 335 (-25)))
       = [mkRequest 3000 (discBody 5 265 25) (discBody 6 335 (-25)) 2]"
    using labels lookups
    by (subst t [THEN conjunct2, THEN conjunct1, rule_format])
      (simp_all add: twoDiscs_fields sqrt_sum_squares_less_iff
        mergeSpeedMax_def mergeRelSpeedMax_def)
  have 3: "collisionPair 3000 twoDiscs (wallBody, discBody 6 335 0) = twoDiscs"
    using w [THEN conjunct2, THEN conjunct2, THEN conjunct1] labels by simp
  show ?thesis using labels lookups 1 2 3 by simp
qed

subsection \<open>Merge resolution and the pending completion\<close>

lemma explosionLoop_frame:
  "\<exists>P R. explosionLoop e x y oc nc sm now pc i n s = s\<lparr> particlePool := P, randomPos := R \<rparr>"
proof (induction n arbitrary: i s)
  case 0
  have "s = s\<lparr> particlePool := particlePool s, randomPos := randomPos s \<rparr>" by simp
  then show ?case by (metis explosionLoop.simps(1))
next
  case (Suc n)
  show ?case
  proof (cases "fst (acquire (particlePool s)) = -1")
    case True
    then have "explosionLoop e x y oc nc sm now pc i (Suc n) s
        = s\<lparr> particlePool := snd (acquire (particlePool s)), randomPos := randomPos s \<rparr>"
      by (simp add: Let_def)
    then show ?thesis by blast
  next
    case False
    obtain P R where "explosionLoop e x y oc nc sm now pc (Suc i) n
          (writeParticle e x y oc nc sm now pc i (fst (acquire (particlePool s)))
             (s\<lparr> particlePool := snd (acquire (particlePool s)) \<rparr>))
        = (writeParticle e x y oc nc sm now pc i (fst (acquire (particlePool s)))
             (s\<lparr> particlePool := snd (acquire (particlePool s)) \<rparr>))
            \<lparr> particlePool := P, randomPos := R \<rparr>"
      using Suc.IH by blast
    with False have "explosionLoop e x y oc nc sm now pc i (Suc n) s
        = s\<lparr> particlePool := P, randomPos := R \<rparr>"
      by (simp add: Let_def writeParticle_def)
    then show ?thesis by blast
  qed
qed

lemma createMergeExplosion_frame:
  "\<exists>P R. createMergeExplosion e x y oc nc v now s = s\<lparr> particlePool := P, randomPos := R \<rparr>"
proof -
  obtain P R where "createMergeExplosion e x y oc nc v now s
      = (s\<lparr> randomPos := Suc (randomPos s) \<rparr>)\<lparr> particlePool := P, randomPos := R \<rparr>"
    unfolding createMergeExplosion_def Let_def using explosionLoop_frame by blast
  then have "createMergeExplosion e x y oc nc v now s = s\<lparr> particlePool := P, randomPos := R \<rparr>"
    by simp
  then show ?thesis by blast
qed

lemma performMerge_frame:
  "\<exists>P R. performMerge e now A B x y s =
     (let newScore = score s + circle_value A * 2 * scoreMul;
          newBest = (if newScore > best s then newScore else best s);
          save = (newScore > best s \<and> now - lastBestSave s > 1000)
      in s\<lparr> score := newScore, best := newBest,
            mergingCircles := insert (body_id (body B)) (insert (body_id (body A)) (mergingCircles s)),
            animations := AList.update (body_id (body B)) (mergeAnimation now x y (body B))
                      (AList.update (body_id (body A)) (mergeAnimation now x y (body A))
                         (animations s)),
            particlePool := P, randomPos := R,
            localBest := (if save then newBest else localBest s),
            lastBestSave := (if save then now else lastBestSave s),
            store := setState now (noUpdate\<lparr> p_score := Some newScore, p_best := Some newBest \<rparr>) (store s),
            timers := timers s @ [(now + 300, MergeTimeout A B x y (circle_value A * 2))] \<rparr>)"
proof -
  obtain P R where PR: "createMergeExplosion e x y (getColorIndex (circle_value A))
                 (getColorIndex (circle_value A * 2)) (circle_value A) now
        (s\<lparr> mergingCircles :=
                    insert (body_id (body B)) (insert (body_id (body A)) (mergingCircles s)) \<rparr>)
     = (s\<lparr> mergingCircles :=
                    insert (body_id (body B)) (insert (body_id (body A)) (mergingCircles s)) \<rparr>)
         \<lparr> particlePool := P, randomPos := R \<rparr>"
    using createMergeExplosion_frame by blast
  show ?thesis
    apply (rule exI [of _ P], rule exI [of _ R])
    apply (simp add: performMerge_def Let_def PR)
    done
qed


lemma performMerge_fields [simp]:
  "circles (performMerge e now A B x y s) = circles s"
  "timers (performMerge e now A B x y s)
     = timers s @ [(now + 300, MergeTimeout A B x y (circle_value A * 2))]"
  "score (performMerge e now A B x y s) = score s + circle_value A * 2 * scoreMul"
  "mergingCircles (performMerge e now A B x y s)
     = insert (body_id (body B)) (insert (body_id (body A)) (mergingCircles s))"
  "nextBodyId (performMerge e now A B x y s) = nextBodyId s"
  "nextLocalId (performMerge e now A B x y s) = nextLocalId s"
  "world (performMerge e now A B x y s) = world s"
  "ended (performMerge e now A B x y s) = ended s"
  "running (performMerge e now A B x y s) = running s"
  "paused (performMerge e now A B x y s) = paused s"
  "endReason (performMerge e now A B x y s) = endReason s"
  using performMerge_frame [of e now A B x y s] by (auto simp: Let_def)

lemma processMergeQueue_Nil: "mergeQueue s = [] \<Longrightarrow> processMergeQueue e now s = s"
  by (subst processMergeQueue.simps) simp

lemma processMergeQueue_Cons:
  "mergeQueue s = m # rest \<Longrightarrow>
   processMergeQueue e now s = processMergeQueue e now (resolveOne e now m (s\<lparr> mergeQueue := rest \<rparr>))"
  by (subst processMergeQueue.simps) (simp add: resolveOne_def Let_def split: option.splits)

lemma resolveOne_fields [simp]:
  "circles (resolveOne e now m s) = circles s"
  "mergeQueue (resolveOne e now m s) = mergeQueue s"
  "nextBodyId (resolveOne e now m s) = nextBodyId s"
  "world (resolveOne e now m s) = world s"
  "ended (resolveOne e now m s) = ended s"
  "running (resolveOne e now m s) = running s"
  "paused (resolveOne e now m s) = paused s"
  "endReason (resolveOne e now m s) = endReason s"
  by (simp_all add: resolveOne_def split: option.splits)

lemma resolveOne_effect:
  assumes "requestAgrees (circles s) m"
  shows "\<exists>new. timers (resolveOne e now m s) = timers s @ new
           \<and> score (resolveOne e now m s) = score s + sum_list (map mergedValue new) * scoreMul
           \<and> list_all (isMergeOf (circles s) now) new"
proof (cases "resolveOne e now m s = s")
  case True
  then have "timers (resolveOne e now m s) = timers s @ []
      \<and> score (resolveOne e now m s) = score s + sum_list (map mergedValue []) * scoreMul
      \<and> list_all (isMergeOf (circles s) now) []" by simp
  then show ?thesis by blast
next
  case False
  then obtain A B where A: "map_of (circles s) (bodyAId m) = Some A"
    and B: "map_of (circles s) (bodyBId m) = Some B"
    and r: "resolveOne e now m s = performMerge e now A B (req_x m) (req_y m) s"
    by (auto simp: resolveOne_def split: option.splits if_splits)
  from assms A B have v: "circle_value A = circle_value B" by (simp add: requestAgrees_def)
  from A B have mem: "A \<in> snd ` set (circles s)" "B \<in> snd ` set (circles s)"
    by (force dest: map_of_SomeD)+
  let ?t = "(now + 300, MergeTimeout A B (req_x m) (req_y m) (circle_value A * 2))"
  have "timers (resolveOne e now m s) = timers s @ [?t]
      \<and> score (resolveOne e now m s) = score s + sum_list (map mergedValue [?t]) * scoreMul
      \<and> list_all (isMergeOf (circles s) now) [?t]"
    using v mem by (simp add: r mergedValue_def isMergeOf_def)
  then show ?thesis by blast
qed

lemma processMergeQueue_effect:
  "list_all (requestAgrees (circles s)) (mergeQueue s) \<Longrightarrow>
   \<exists>new. timers (processMergeQueue e now s) = timers s @ new
      \<and> score (processMergeQueue e now s) = score s + sum_list (map mergedValue new) * scoreMul
      \<and> list_all (isMergeOf (circles s) now) new
      \<and> circles (processMergeQueue e now s) = circles s
      \<and> mergeQueue (processMergeQueue e now s) = []"
proof (induction "mergeQueue s" arbitrary: s)
  case Nil
  then have "processMergeQueue e now s = s" by (simp add: processMergeQueue_Nil)
  then have "timers (processMergeQueue e now s) = timers s @ []
      \<and> score (processMergeQueue e now s) = score s + sum_list (map mergedValue []) * scoreMul
      \<and> list_all (isMergeOf (circles s) now) []
      \<and> circles (processMergeQueue e now s) = circles s
      \<and> mergeQueue (processMergeQueue e now s) = []" using Nil by simp
  then show ?case by blast
next
  case (Cons m rest)
  let ?s1 = "s\<lparr> mergeQueue := rest \<rparr>"
  let ?s2 = "resolveOne e now m ?s1"
  from Cons.hyps(2) [symmetric] have q: "mergeQueue s = m # rest" .
  from Cons.prems q have agree: "requestAgrees (circles s) m"
    and rest: "list_all (requestAgrees (circles s)) rest" by simp_all
  have unfold: "processMergeQueue e now s = processMergeQueue e now ?s2"
    using q by (rule processMergeQueue_Cons)
  obtain new1 where n1: "timers ?s2 = timers s @ new1"
      "score ?s2 = score s + sum_list (map mergedValue new1) * scoreMul"
      "list_all (isMergeOf (circles s) now) new1"
    using resolveOne_effect [of ?s1 m e now] agree by auto
  have "rest = mergeQueue ?s2" by simp
  moreover have "list_all (requestAgrees (circles ?s2)) (mergeQueue ?s2)" using rest by simp
  ultimately obtain new2 where n2: "timers (processMergeQueue e now ?s2) = timers ?s2 @ new2"
      "score (processMergeQueue e now ?s2) = score ?s2 + sum_list (map mergedValue new2) * scoreMul"
      "list_all (isMergeOf (circles ?s2) now) new2"
      "circles (processMergeQueue e now ?s2) = circles ?s2"
      "mergeQueue (processMergeQueue e now ?s2) = []"
    using Cons.hyps(1) [of ?s2] by blast
  have "timers (processMergeQueue e now s) = timers s @ (new1 @ new2)
      \<and> score (processMergeQueue e now s)
          = score s + sum_list (map mergedValue (new1 @ new2)) * scoreMul
      \<and> list_all (isMergeOf (circles s) now) (new1 @ new2)
      \<and> circles (processMergeQueue e now s) = circles s
      \<and> mergeQueue (processMergeQueue e now s) = []"
    using n1 n2 by (simp add: unfold algebra_simps)
  then show ?case by blast
qed

text \<open>The merge queue is empty between events: every fixed step drains it.\<close>

lemma mergeQueue_processMergeQueue [simp]:
  "mergeQueue (processMergeQueue e now s) = []"
proof (induction "mergeQueue s" arbitrary: s)
  case Nil
  then show ?case by (simp add: processMergeQueue_Nil)
next
  case (Cons m rest)
  from Cons.hyps(2) [symmetric] have "processMergeQueue e now s
      = processMergeQueue e now (resolveOne e now m (s\<lparr> mergeQueue := rest \<rparr>))"
    by (rule processMergeQueue_Cons)
  moreover have "mergeQueue (processMergeQueue e now (resolveOne e now m (s\<lparr> mergeQueue := rest \<rparr>)))
      = []"
    by (rule Cons.hyps(1)) simp
  ultimately show ?case by simp
qed

lemma mergeQueue_createCircle [simp]:
  "mergeQueue (snd (createCircle e x y v now s)) = mergeQueue s"
  by (simp add: createCircle_def showToastMessage_def Let_def)

lemma mergeQueue_removeCircle [simp]: "mergeQueue (removeCircle k s) = mergeQueue s"
  by (simp add: removeCircle_def split: option.splits)

lemma mergeQueue_endGame [simp]: "mergeQueue (endGame r now s) = mergeQueue s"
  by (simp add: endGame_def)

lemma mergeQueue_handle:
  "mergeQueue s = [] \<Longrightarrow> mergeQueue (handle e s ev) = []"
proof (cases ev)
  case (Drop now)
  assume "mergeQueue s = []"
  then show ?thesis using Drop
    by (simp add: tryDrop_def createCircle_def showToastMessage_def Let_def split: option.splits)
next
  case (Step motion pairs now)
  assume "mergeQueue s = []"
  then show ?thesis using Step
    by (simp add: fixedStep_def checkDangerLine_def fullScan_def updateHighestCircle_def)
next
  case (Fire now k)
  assume q: "mergeQueue s = []"
  have "mergeQueue (runTimer e now t (s\<lparr> timers := ts \<rparr>)) = []" for t ts
    using q
    by (cases t)
      (simp_all add: mergeTimeout_def createCircle_def showToastMessage_def Let_def
        split: option.splits prod.splits)
  then show ?thesis using q Fire by (simp add: fireTimer_def)
next
  case (Restart now)
  then show ?thesis by (simp add: restart_def showToastMessage_def Let_def)
next
  case (TogglePause now)
  assume "mergeQueue s = []"
  then show ?thesis using TogglePause by (simp add: togglePause_def showToastMessage_def Let_def)
qed

lemma mergeQueue_run:
  "mergeQueue s = [] \<Longrightarrow> mergeQueue (run e evs s) = []"
  unfolding run_def by (induction evs arbitrary: s) (simp_all add: mergeQueue_handle)

lemma mergeQueue_empty_between_events:
  "mergeQueue (run e evs (initGame e savedBest firstBodyId t0 now)) = []"
  by (intro mergeQueue_run) (simp add: initGame_def restart_def showToastMessage_def Let_def)

text \<open>
  C1: a restart before a pending merge completion fires cancels it. It does not: no
  function clears a timer, so the callback that performMerge scheduled survives the
  restart. For every state and every merge, after performMerge at \<open>now\<close>, a restart at
  any time \<open>t\<close> empties the disc table, and when the timer fires at \<open>now + 300\<close> the
  table of the new session holds one disc of the doubled value.
\<close>

theorem restart_keeps_pending_merge:
  "circles (restart e t (performMerge e now A B x y s)) = []
   \<and> circles (fireTimer e (now + 300) (length (timers s))
        (restart e t (performMerge e now A B x y s)))
     = [(nextBodyId s,
         \<lparr> body = \<lparr> body_id = nextBodyId s, body_label = ''circle'',
                    position_x = x, position_y = y, velocity_x = 0, velocity_y = 0,
                    force_x = 0, force_y = 0.005 \<rparr>,
           circle_value = circle_value A * 2, bornAt = now + 300, circle_id = 1 \<rparr>)]"
  by (simp add: restart_def showToastMessage_def fireTimer_def nth_append mergeTimeout_def
      removeCircle_def createCircle_def maxCircles_def applyForce_def Let_def)

text \<open>
  The same through the events of a session: the two discs collide in a fixed step at
  time 3000 and are merged; a restart at 3100 empties the table; the timer of the merge
  fires at 3300 and the new session holds a disc of value 4 at the midpoint.
\<close>

lemma restart_scenario:
  "map (\<lambda>(k, d). (k, circle_value d))
     (circles (run desktop
        [Step approach [(discBody 5 265 25, discBody 6 335 (-25))] 3000] twoDiscs))
     = [(5, 2), (6, 2)]
   \<and> circles (run desktop
        [Step approach [(discBody 5 265 25, discBody 6 335 (-25))] 3000, Restart 3100]
        twoDiscs) = []
   \<and> map (\<lambda>(k, d). (k, circle_value d, position_x (body d), position_y (body d)))
     (circles (run desktop
        [Step approach [(discBody 5 265 25, discBody 6 335 (-25))] 3000, Restart 3100,
         Fire 3300 2] twoDiscs))
     = [(7, 4, 300, 700)]"
proof -
  let ?moved = "twoDiscs\<lparr> circles := map (\<lambda>(k, d). (k, moveBody approach d)) (circles twoDiscs) \<rparr>"
  have cs: "map (\<lambda>(k, d). (k, circle_value d)) (circles ?moved) = [(5, 2), (6, 2)]"
    "map_of (circles ?moved) 5 = Some (moveBody approach (discData 5 265 1500 1))"
    "map_of (circles ?moved) 6 = Some (moveBody approach (discData 6 335 2000 2))"
    by (simp_all add: twoDiscs_fields moveBody_def approach_def)
  have el: "mergeEligible ?moved (discBody 5 265 25, discBody 6 335 (-25))"
    by (simp add: mergeEligible_def twoDiscs_fields moveBody_def approach_def
        magnitude_less_iff mergeSpeedMax_def mergeRelSpeedMax_def)
  let ?A = "moveBody approach (discData 5 265 1500 1)"
  let ?B = "moveBody approach (discData 6 335 2000 2)"
  have ids: "body_id (body ?A) = 5" "body_id (body ?B) = 6" "circle_value ?A = 2"
    by (simp_all add: moveBody_def approach_def)
  have eu: "engineUpdate approach [(discBody 5 265 25, discBody 6 335 (-25))] 3000 twoDiscs
      = ?moved\<lparr> mergeQueue := [mkRequest 3000 (discBody 5 265 25) (discBody 6 335 (-25)) 2] \<rparr>"
    using el cs(2)
    by (simp add: engineUpdate_def collisionStart_eq requestFor_def twoDiscs_fields
        moveBody_def approach_def)
  have pm: "processMergeQueue desktop 3000
        (engineUpdate approach [(discBody 5 265 25, discBody 6 335 (-25))] 3000 twoDiscs)
      = performMerge desktop 3000 ?A ?B 300 700 (?moved\<lparr> mergeQueue := [] \<rparr>)"
    using cs(2,3)
    by (simp add: eu processMergeQueue_Cons processMergeQueue_Nil resolveOne_def mkRequest_def
        twoDiscs_fields ids)
  let ?merged = "performMerge desktop 3000 ?A ?B 300 700 (?moved\<lparr> mergeQueue := [] \<rparr>)"
  have step: "run desktop [Step approach [(discBody 5 265 25, discBody 6 335 (-25))] 3000] twoDiscs
      = checkDangerLine desktop 3000 (updateHighestCircle desktop ?merged)"
    by (simp add: run_def fixedStep_def twoDiscs_more_fields pm)
  have r: "getRadiusForValue desktop 2 = 34" "dangerLineY desktop = 120" "boardH desktop = 800"
    by (simp_all add: getRadiusForValue_def dangerLineY_def boardH_def desktop_def Let_def)
  have top: "highestCircleTop (updateHighestCircle desktop ?merged) = 666"
    by (simp add: updateHighestCircle_def twoDiscs_fields moveBody_def approach_def
        circleTop_def r)
  have step': "run desktop [Step approach [(discBody 5 265 25, discBody 6 335 (-25))] 3000] twoDiscs
      = updateHighestCircle desktop ?merged"
    using top by (simp add: step checkDangerLine_def r)
  define s1 where "s1 = updateHighestCircle desktop ?merged"
  have f1: "circles s1 = circles ?moved" "nextBodyId s1 = 7"
    "timers s1 = [(1030, TimeScaleTimeout), (2200, ToastTimeout),
                   (3300, MergeTimeout ?A ?B 300 700 4)]"
    by (simp_all add: s1_def updateHighestCircle_def twoDiscs_fields twoDiscs_more_fields)
  have run1: "run desktop [Step approach [(discBody 5 265 25, discBody 6 335 (-25))] 3000]
        twoDiscs = s1"
    using step' by (simp add: s1_def)
  have run2: "run desktop [Step approach [(discBody 5 265 25, discBody 6 335 (-25))] 3000,
        Restart 3100] twoDiscs = restart desktop 3100 s1"
    using run1 by (simp add: run_def)
  have run3: "run desktop [Step approach [(discBody 5 265 25, discBody 6 335 (-25))] 3000,
        Restart 3100, Fire 3300 2] twoDiscs = fireTimer desktop 3300 2 (restart desktop 3100 s1)"
    using run1 by (simp add: run_def)
  have a: "map (\<lambda>(k, d). (k, circle_value d)) (circles s1) = [(5, 2), (6, 2)]"
    using cs(1) by (simp add: f1)
  have b: "circles (restart desktop 3100 s1) = []"
    by (simp add: restart_def showToastMessage_def Let_def)
  have c: "map (\<lambda>(k, d). (k, circle_value d, position_x (body d), position_y (body d)))
      (circles (fireTimer desktop 3300 2 (restart desktop 3100 s1))) = [(7, 4, 300, 700)]"
    by (simp add: restart_def showToastMessage_def Let_def fireTimer_def f1 mergeTimeout_def
        removeCircle_def createCircle_def maxCircles_def applyForce_def)
  show ?thesis using a b c by (simp only: run1 run2 run3)
qed

text \<open>The score under every event, and over a list of events.\<close>

lemma score_endGame [simp]: "score (endGame r now s) = score s"
  by (simp add: endGame_def)

lemma timers_endGame [simp]: "timers (endGame r now s) = timers s"
  by (simp add: endGame_def)

lemma score_createCircle [simp]: "score (snd (createCircle e x y v now s)) = score s"
  by (simp add: createCircle_def showToastMessage_def Let_def)

lemma score_removeCircle [simp]: "score (removeCircle k s) = score s"
  by (simp add: removeCircle_def split: option.splits)

lemma score_mergeTimeout [simp]: "score (mergeTimeout e now A B x y nv s) = score s"
  by (simp add: mergeTimeout_def createCircle_def showToastMessage_def Let_def
      split: option.splits prod.splits)

lemma score_fireTimer [simp]: "score (fireTimer e now k s) = score s"
proof -
  have "score (runTimer e now t (s\<lparr> timers := ts \<rparr>)) = score s" for t ts
    by (cases t) simp_all
  then show ?thesis by (simp add: fireTimer_def)
qed

lemma score_tryDrop [simp]: "score (tryDrop e now s) = score s"
  by (simp add: tryDrop_def createCircle_def showToastMessage_def Let_def split: option.splits)

lemma score_togglePause [simp]: "score (togglePause now s) = score s"
  by (simp add: togglePause_def showToastMessage_def Let_def)

lemma score_restart [simp]: "score (restart e now s) = 0"
  by (simp add: restart_def showToastMessage_def Let_def)

lemma isMergeOf_doubledValue: "isMergeOf cs now t \<Longrightarrow> doubledValue t"
  by (auto simp: isMergeOf_def doubledValue_def split: Timer.splits)

lemma fixedStep_effect:
  assumes "mergeQueue s = []"
  shows "score (fixedStep e motion pairs now s)
           = score s + sum_list (map mergedValue (scheduledBy e s (Step motion pairs now))) * scoreMul
         \<and> list_all doubledValue (scheduledBy e s (Step motion pairs now))"
proof (cases "running s \<and> \<not> paused s")
  case False
  then show ?thesis by (auto simp: fixedStep_def scheduledBy_def)
next
  case True
  let ?s0 = "s\<lparr> circles := map (\<lambda>(k, d). (k, moveBody motion d)) (circles s) \<rparr>"
  let ?s1 = "engineUpdate motion pairs now s"
  have s1: "?s1 = collisionStart now pairs ?s0" by (simp add: engineUpdate_def)
  have "list_all (requestAgrees (circles ?s1)) (mergeQueue ?s1)"
    unfolding s1 using assms by (intro collisionStart_agrees) simp
  from processMergeQueue_effect [OF this, of e now]
  obtain new where n: "timers (processMergeQueue e now ?s1) = timers ?s1 @ new"
      "score (processMergeQueue e now ?s1) = score ?s1 + sum_list (map mergedValue new) * scoreMul"
      "list_all (isMergeOf (circles ?s1) now) new" by blast
  have f: "timers ?s1 = timers s" "score ?s1 = score s"
    by (simp_all add: s1 collisionStart_eq)
  have t: "timers (fixedStep e motion pairs now s) = timers s @ new"
    using True n(1) f
    by (simp add: fixedStep_def checkDangerLine_def fullScan_def updateHighestCircle_def)
  have sc: "score (fixedStep e motion pairs now s) = score s + sum_list (map mergedValue new) * scoreMul"
    using True n(2) f
    by (simp add: fixedStep_def checkDangerLine_def fullScan_def updateHighestCircle_def)
  have "scheduledBy e s (Step motion pairs now) = new"
    by (simp add: scheduledBy_def t)
  moreover have "list_all doubledValue new"
    using n(3) by (auto simp: list_all_iff intro: isMergeOf_doubledValue)
  ultimately show ?thesis using sc by simp
qed

lemma handle_score:
  assumes "mergeQueue s = []"
  shows "score (handle e s ev)
           = (if isRestart ev then 0
              else score s + sum_list (map mergedValue (scheduledBy e s ev)) * scoreMul)
         \<and> list_all doubledValue (scheduledBy e s ev)"
proof (cases ev)
  case (Step motion pairs now)
  then show ?thesis using fixedStep_effect [OF assms, of e motion pairs now] by simp
qed (simp_all add: scheduledBy_def)

lemma run_score:
  "mergeQueue s = [] \<Longrightarrow> score s = sum_list (map mergedValue acc) * scoreMul \<Longrightarrow>
   list_all doubledValue acc \<Longrightarrow>
   score (run e evs s) = sum_list (map mergedValue (resolvedInSession e s evs acc)) * scoreMul
   \<and> list_all doubledValue (resolvedInSession e s evs acc)"
proof (induction evs arbitrary: s acc)
  case Nil
  then show ?case by (simp add: run_def)
next
  case (Cons ev evs)
  let ?s' = "handle e s ev"
  let ?acc' = "if isRestart ev then [] else acc @ scheduledBy e s ev"
  note h = handle_score [OF Cons.prems(1), of e ev]
  have q: "mergeQueue ?s' = []" using Cons.prems(1) by (rule mergeQueue_handle)
  have sc: "score ?s' = sum_list (map mergedValue ?acc') * scoreMul"
    using h Cons.prems(2) by (simp add: algebra_simps)
  have dv: "list_all doubledValue ?acc'"
    using h Cons.prems(3) by simp
  have "run e (ev # evs) s = run e evs ?s'" by (simp add: run_def)
  then show ?case using Cons.IH [OF q sc dv] by simp
qed

lemma initGame_fields:
  "mergeQueue (initGame e savedBest firstBodyId t0 now) = []"
  "score (initGame e savedBest firstBodyId t0 now) = 0"
  by (simp_all add: initGame_def restart_def showToastMessage_def Let_def)

lemma collision_step_timers:
  "timers (fixedStep desktop approach [(discBody 5 265 25, discBody 6 335 (-25))] 3000 twoDiscs)
     = timers twoDiscs
       @ [(3300, MergeTimeout (moveBody approach (discData 5 265 1500 1))
                   (moveBody approach (discData 6 335 2000 2)) 300 700 4)]"
proof -
  let ?moved = "twoDiscs\<lparr> circles := map (\<lambda>(k, d). (k, moveBody approach d)) (circles twoDiscs) \<rparr>"
  have cs: "map_of (circles ?moved) 5 = Some (moveBody approach (discData 5 265 1500 1))"
    "map_of (circles ?moved) 6 = Some (moveBody approach (discData 6 335 2000 2))"
    by (simp_all add: twoDiscs_fields moveBody_def approach_def)
  have el: "mergeEligible ?moved (discBody 5 265 25, discBody 6 335 (-25))"
    by (simp add: mergeEligible_def twoDiscs_fields moveBody_def approach_def
        magnitude_less_iff mergeSpeedMax_def mergeRelSpeedMax_def)
  let ?A = "moveBody approach (discData 5 265 1500 1)"
  let ?B = "moveBody approach (discData 6 335 2000 2)"
  have eu: "engineUpdate approach [(discBody 5 265 25, discBody 6 335 (-25))] 3000 twoDiscs
      = ?moved\<lparr> mergeQueue := [mkRequest 3000 (discBody 5 265 25) (discBody 6 335 (-25)) 2] \<rparr>"
    using el cs(1)
    by (simp add: engineUpdate_def collisionStart_eq requestFor_def twoDiscs_fields
        moveBody_def approach_def)
  have pm: "processMergeQueue desktop 3000
        (engineUpdate approach [(discBody 5 265 25, discBody 6 335 (-25))] 3000 twoDiscs)
      = performMerge desktop 3000 ?A ?B 300 700 (?moved\<lparr> mergeQueue := [] \<rparr>)"
    using cs
    by (simp add: eu processMergeQueue_Cons processMergeQueue_Nil resolveOne_def mkRequest_def
        twoDiscs_fields)
  show ?thesis
    by (simp add: fixedStep_def twoDiscs_more_fields pm checkDangerLine_def fullScan_def
        updateHighestCircle_def)
qed

text \<open>
  C4: a resolved merge of A and B schedules a disc of value 2 * A.value = 2 * B.value
  and adds that value times scoreMul to the score, once. performMerge adds
  2 * A.value * scoreMul and schedules one completion with that value; in a step that
  starts with an empty queue (as every step does, lemma
  \<open>mergeQueue_empty_between_events\<close>), the completions scheduled are merges of two discs
  of the table with equal values, and the score grows by the sum of their doubled values
  times scoreMul; when the completion fires with room in the table, the new disc has
  the scheduled value. Nothing else touches the score: the completion, any other timer,
  a drop and a pause leave it as it is, and a restart sets it to 0. So after any list of
  events the score is the sum, times scoreMul, of the values of the completions
  scheduled since the last restart, each the double of the values of its two discs.
\<close>

theorem merge_doubles_and_scores_once:
  "score (performMerge e now A B x y s) = score s + 2 * circle_value A * scoreMul
   \<and> timers (performMerge e now A B x y s)
       = timers s @ [(now + 300, MergeTimeout A B x y (2 * circle_value A))]
   \<and> (mergeQueue s = [] \<longrightarrow>
        (\<exists>new. timers (processMergeQueue e now (collisionStart now pairs s)) = timers s @ new
           \<and> list_all (isMergeOf (circles s) now) new
           \<and> score (processMergeQueue e now (collisionStart now pairs s))
               = score s + sum_list (map mergedValue new) * scoreMul))
   \<and> (length (circles (removeCircle (body_id (body B)) (removeCircle (body_id (body A)) g)))
        < maxCircles \<longrightarrow>
        (\<exists>c. map_of (circles (mergeTimeout e t A B x y newValue g)) (nextBodyId g) = Some c
              \<and> circle_value c = newValue))
   \<and> scoreMul = 1
   \<and> score (mergeTimeout e t A B x y newValue g) = score g
   \<and> score (fireTimer e t k g) = score g
   \<and> score (tryDrop e t g) = score g
   \<and> score (togglePause t g) = score g
   \<and> score (restart e t g) = 0
   \<and> (mergeQueue s = [] \<and> score s = sum_list (map mergedValue acc) * scoreMul
        \<and> list_all doubledValue acc \<longrightarrow>
        score (run e evs s) = sum_list (map mergedValue (resolvedInSession e s evs acc)) * scoreMul
        \<and> list_all doubledValue (resolvedInSession e s evs acc))
   \<and> score (run e evs (initGame e savedBest firstBodyId t0 t))
       = sum_list (map mergedValue
           (resolvedInSession e (initGame e savedBest firstBodyId t0 t) evs [])) * scoreMul
   \<and> list_all doubledValue (resolvedInSession e (initGame e savedBest firstBodyId t0 t) evs [])"
proof -
  have 1: "mergeQueue s = [] \<Longrightarrow>
        (\<exists>new. timers (processMergeQueue e now (collisionStart now pairs s)) = timers s @ new
           \<and> list_all (isMergeOf (circles s) now) new
           \<and> score (processMergeQueue e now (collisionStart now pairs s))
               = score s + sum_list (map mergedValue new) * scoreMul)"
  proof -
    assume q: "mergeQueue s = []"
    let ?s1 = "collisionStart now pairs s"
    have "list_all (requestAgrees (circles ?s1)) (mergeQueue ?s1)"
      using q by (intro collisionStart_agrees) simp
    from processMergeQueue_effect [OF this, of e now]
    obtain new where "timers (processMergeQueue e now ?s1) = timers ?s1 @ new"
      "score (processMergeQueue e now ?s1) = score ?s1 + sum_list (map mergedValue new) * scoreMul"
      "list_all (isMergeOf (circles ?s1) now) new" by blast
    moreover have "timers ?s1 = timers s" "score ?s1 = score s" "circles ?s1 = circles s"
      by (simp_all add: collisionStart_eq)
    ultimately show ?thesis by auto
  qed
  have 2: "length (circles (removeCircle (body_id (body B)) (removeCircle (body_id (body A)) g)))
        < maxCircles \<Longrightarrow>
        (\<exists>c. map_of (circles (mergeTimeout e t A B x y newValue g)) (nextBodyId g) = Some c
              \<and> circle_value c = newValue)"
  proof -
    let ?g3 = "removeCircle (body_id (body B)) (removeCircle (body_id (body A)) g)"
    assume "length (circles ?g3) < maxCircles"
    moreover have "nextBodyId ?g3 = nextBodyId g"
      by (simp add: removeCircle_def split: option.splits)
    ultimately show ?thesis
      by (simp add: mergeTimeout_def createCircle_def Let_def applyForce_def update_conv')
  qed
  have 3: "mergeQueue s = [] \<and> score s = sum_list (map mergedValue acc) * scoreMul
        \<and> list_all doubledValue acc \<Longrightarrow>
        score (run e evs s) = sum_list (map mergedValue (resolvedInSession e s evs acc)) * scoreMul
        \<and> list_all doubledValue (resolvedInSession e s evs acc)"
    using run_score [of s acc e evs] by blast
  have 4: "score (run e evs (initGame e savedBest firstBodyId t0 t))
       = sum_list (map mergedValue
           (resolvedInSession e (initGame e savedBest firstBodyId t0 t) evs [])) * scoreMul
     \<and> list_all doubledValue (resolvedInSession e (initGame e savedBest firstBodyId t0 t) evs [])"
    by (rule run_score) (simp_all add: initGame_fields)
  have 5: "score (performMerge e now A B x y s) = score s + 2 * circle_value A * scoreMul
     \<and> timers (performMerge e now A B x y s)
         = timers s @ [(now + 300, MergeTimeout A B x y (2 * circle_value A))]
     \<and> scoreMul = 1"
    by (simp add: scoreMul_def)
  have 6: "score (mergeTimeout e t A B x y newValue g) = score g
     \<and> score (fireTimer e t k g) = score g \<and> score (tryDrop e t g) = score g
     \<and> score (togglePause t g) = score g \<and> score (restart e t g) = 0"
    by simp
  show ?thesis using 1 2 3 4 5 6 by blast
qed

theorem merge_doubles_and_scores_once_witness:
  "mergeQueue twoDiscs = []
   \<and> score (performMerge desktop 3000 (discData 5 265 1500 1) (discData 6 335 2000 2)
        300 700 twoDiscs) = 4
   \<and> (\<exists>new. timers (processMergeQueue desktop 3000
          (collisionStart 3000 [(discBody 5 265 25, discBody 6 335 (-25))] twoDiscs))
         = timers twoDiscs @ new
       \<and> list_all (isMergeOf (circles twoDiscs) 3000) new
       \<and> score (processMergeQueue desktop 3000
          (collisionStart 3000 [(discBody 5 265 25, discBody 6 335 (-25))] twoDiscs))
         = sum_list (map mergedValue new))
   \<and> length (circles (removeCircle 6 (removeCircle 5 twoDiscs))) < maxCircles
   \<and> (\<exists>c. map_of (circles (mergeTimeout desktop 3300 (discData 5 265 1500 1)
               (discData 6 335 2000 2) 300 700 4 twoDiscs)) 7 = Some c
          \<and> circle_value c = 4)
   \<and> score twoDiscs = sum_list (map mergedValue []) * scoreMul
   \<and> list_all doubledValue []
   \<and> resolvedInSession desktop twoDiscs
        [Step approach [(discBody 5 265 25, discBody 6 335 (-25))] 3000, Fire 3300 2] []
       = [(3300, MergeTimeout (moveBody approach (discData 5 265 1500 1))
                   (moveBody approach (discData 6 335 2000 2)) 300 700 4)]
   \<and> score (run desktop
        [Step approach [(discBody 5 265 25, discBody 6 335 (-25))] 3000, Fire 3300 2]
        twoDiscs) = 4"
proof -
  note t = merge_doubles_and_scores_once [where e = desktop and now = 3000
      and A = "discData 5 265 1500 1" and B = "discData 6 335 2000 2" and x = 300 and y = 700
      and s = twoDiscs and pairs = "[(discBody 5 265 25, discBody 6 335 (-25))]"
      and g = twoDiscs and t = 3300 and newValue = 4 and acc = "[]"
      and evs = "[Step approach [(discBody 5 265 25, discBody 6 335 (-25))] 3000, Fire 3300 2]"]
  have len: "length (circles (removeCircle 6 (removeCircle 5 twoDiscs))) < maxCircles"
    by (simp add: removeCircle_def twoDiscs_fields maxCircles_def)
  have q: "mergeQueue twoDiscs = []" "score twoDiscs = sum_list (map mergedValue []) * scoreMul"
    "list_all doubledValue []"
    by (simp_all add: twoDiscs_fields)
  have r: "resolvedInSession desktop twoDiscs
        [Step approach [(discBody 5 265 25, discBody 6 335 (-25))] 3000, Fire 3300 2] []
       = [(3300, MergeTimeout (moveBody approach (discData 5 265 1500 1))
                   (moveBody approach (discData 6 335 2000 2)) 300 700 4)]"
    by (simp add: scheduledBy_def collision_step_timers twoDiscs_more_fields)
  have old: "score (performMerge desktop 3000 (discData 5 265 1500 1) (discData 6 335 2000 2)
        300 700 twoDiscs) = 4
   \<and> (\<exists>new. timers (processMergeQueue desktop 3000
          (collisionStart 3000 [(discBody 5 265 25, discBody 6 335 (-25))] twoDiscs))
         = timers twoDiscs @ new
       \<and> list_all (isMergeOf (circles twoDiscs) 3000) new
       \<and> score (processMergeQueue desktop 3000
          (collisionStart 3000 [(discBody 5 265 25, discBody 6 335 (-25))] twoDiscs))
         = sum_list (map mergedValue new))
   \<and> (\<exists>c. map_of (circles (mergeTimeout desktop 3300 (discData 5 265 1500 1)
               (discData 6 335 2000 2) 300 700 4 twoDiscs)) 7 = Some c
          \<and> circle_value c = 4)"
    using t len by (simp add: twoDiscs_fields scoreMul_def)
  have run: "score (run desktop
        [Step approach [(discBody 5 265 25, discBody 6 335 (-25))] 3000, Fire 3300 2]
        twoDiscs) = sum_list (map mergedValue (resolvedInSession desktop twoDiscs
        [Step approach [(discBody 5 265 25, discBody 6 335 (-25))] 3000, Fire 3300 2] []))
          * scoreMul"
    using t q by blast
  have "score (run desktop
        [Step approach [(discBody 5 265 25, discBody 6 335 (-25))] 3000, Fire 3300 2]
        twoDiscs) = 4"
    by (simp only: run r) (simp add: mergedValue_def scoreMul_def)
  then show ?thesis using q len r old by blast
qed

text \<open>
  The scenario of the specification: two discs of value 2 that collide with relative
  speed 50 are merged, the score grows by 4 and a disc of value 4 is scheduled.
\<close>

lemma merge_scenario:
  "score (processMergeQueue desktop 3000
        (collisionStart 3000 [(discBody 5 265 25, discBody 6 335 (-25))] twoDiscs)) = 4
   \<and> timers (processMergeQueue desktop 3000
        (collisionStart 3000 [(discBody 5 265 25, discBody 6 335 (-25))] twoDiscs))
       = timers twoDiscs
         @ [(3300, MergeTimeout (discData 5 265 1500 1) (discData 6 335 2000 2) 300 700 4)]"
  by (simp add: collisionStart_eq eligible_examples requestFor_def twoDiscs_fields
      processMergeQueue_Cons processMergeQueue_Nil resolveOne_def mkRequest_def scoreMul_def)

subsection \<open>The capacity of the disc table\<close>

lemma circles_showToastMessage [simp]: "circles (showToastMessage m now s) = circles s"
  by (simp add: showToastMessage_def)

lemma circles_endGame [simp]: "circles (endGame r now s) = circles s"
  by (simp add: endGame_def)

lemma circles_removeCircle: "circles (removeCircle k s) = AList.delete k (circles s)"
proof (cases "map_of (circles s) k")
  case None
  then have "k \<notin> fst ` set (circles s)" by (simp add: map_of_eq_None_iff)
  with None show ?thesis by (simp add: removeCircle_def)
next
  case (Some d)
  then show ?thesis by (simp add: removeCircle_def)
qed

lemma withinCapacity_removeCircle:
  "withinCapacity s \<Longrightarrow> withinCapacity (removeCircle k s)"
  using length_delete_le [of k "circles s"]
  by (simp add: withinCapacity_def circles_removeCircle distinct_delete)

lemma withinCapacity_createCircle:
  "withinCapacity s \<Longrightarrow> withinCapacity (snd (createCircle e x y v now s))"
  by (auto simp: withinCapacity_def createCircle_def Let_def distinct_update
      intro!: order_trans [OF length_update_le])

lemma createCircle_Some_key:
  "createCircle e x y v now s = (Some c, s') \<Longrightarrow>
   body_id (body c) \<in> fst ` set (circles s')"
  by (auto simp: createCircle_def Let_def dom_update split: if_splits)

lemma length_update_same:
  "k \<in> fst ` set al \<Longrightarrow> length (AList.update k v al) = length al"
  by (induction al) auto

lemma withinCapacity_mergeTimeout:
  assumes "withinCapacity s"
  shows "withinCapacity (mergeTimeout e now A B x y nv s)"
proof -
  let ?s3 = "(removeCircle (body_id (body B)) (removeCircle (body_id (body A)) s))
      \<lparr> mergingCircles := mergingCircles (removeCircle (body_id (body B))
           (removeCircle (body_id (body A)) s)) - {body_id (body A)} - {body_id (body B)} \<rparr>"
  have w3: "withinCapacity ?s3"
    using assms withinCapacity_removeCircle [of "removeCircle (body_id (body A)) s"]
      withinCapacity_removeCircle [of s]
    by (simp add: withinCapacity_def)
  obtain C s4 where c: "createCircle e x y nv now ?s3 = (C, s4)" by (cases "createCircle e x y nv now ?s3")
  then have w4: "withinCapacity s4" using withinCapacity_createCircle [OF w3, of e x y nv now] by simp
  show ?thesis
  proof (cases C)
    case None
    with c w4 show ?thesis by (simp add: mergeTimeout_def Let_def)
  next
    case (Some d)
    with c have "body_id (body d) \<in> fst ` set (circles s4)" by (auto dest: createCircle_Some_key)
    then have "length (AList.update (body_id (body d)) (applyForce 0 0.005 d) (circles s4))
        = length (circles s4)" by (rule length_update_same)
    with c Some w4 show ?thesis
      by (simp add: mergeTimeout_def Let_def withinCapacity_def distinct_update)
  qed
qed

lemma withinCapacity_fireTimer:
  "withinCapacity s \<Longrightarrow> withinCapacity (fireTimer e now k s)"
proof -
  assume w: "withinCapacity s"
  have "withinCapacity (runTimer e now t (s\<lparr> timers := ts \<rparr>))" for t ts
  proof (cases t)
    case (MergeTimeout A B x y nv)
    have "withinCapacity (s\<lparr> timers := ts \<rparr>)" using w by (simp add: withinCapacity_def)
    then show ?thesis using MergeTimeout by (simp add: withinCapacity_mergeTimeout)
  qed (use w in \<open>simp_all add: withinCapacity_def\<close>)
  then show ?thesis using w by (simp add: fireTimer_def)
qed

lemma circles_processMergeQueue [simp]:
  "circles (processMergeQueue e now s) = circles s"
proof (induction "mergeQueue s" arbitrary: s)
  case Nil
  then show ?case by (simp add: processMergeQueue_Nil)
next
  case (Cons m rest)
  from Cons.hyps(2) [symmetric] have "processMergeQueue e now s
      = processMergeQueue e now (resolveOne e now m (s\<lparr> mergeQueue := rest \<rparr>))"
    by (rule processMergeQueue_Cons)
  moreover have "circles (processMergeQueue e now (resolveOne e now m (s\<lparr> mergeQueue := rest \<rparr>)))
      = circles (resolveOne e now m (s\<lparr> mergeQueue := rest \<rparr>))"
    by (rule Cons.hyps(1)) simp
  ultimately show ?case by simp
qed

lemma circles_updateHighestCircle [simp]: "circles (updateHighestCircle e s) = circles s"
  by (simp add: updateHighestCircle_def)

lemma circles_checkDangerLine [simp]: "circles (checkDangerLine e now s) = circles s"
  by (simp add: checkDangerLine_def fullScan_def)

lemma circles_engineUpdate:
  "circles (engineUpdate motion pairs now s) = map (\<lambda>(k, d). (k, moveBody motion d)) (circles s)"
  by (simp add: engineUpdate_def collisionStart_eq)

lemma withinCapacity_fixedStep:
  "withinCapacity s \<Longrightarrow> withinCapacity (fixedStep e motion pairs now s)"
proof -
  have keys: "(fst \<circ> (\<lambda>(k, d). (k, moveBody motion d))) = fst"
    by (auto simp: fun_eq_iff)
  show "withinCapacity s \<Longrightarrow> withinCapacity (fixedStep e motion pairs now s)"
    by (simp add: fixedStep_def withinCapacity_def circles_engineUpdate keys)
qed

lemma withinCapacity_tryDrop:
  "withinCapacity s \<Longrightarrow> withinCapacity (tryDrop e now s)"
proof -
  assume w: "withinCapacity s"
  show ?thesis
  proof (cases "findPlacement e s")
    case None
    then show ?thesis using w by (simp add: tryDrop_def withinCapacity_def)
  next
    case (Some x)
    obtain C s1 where c: "createCircle e x (spawnY e) (nextValue s) now s = (C, s1)"
      by (cases "createCircle e x (spawnY e) (nextValue s) now s")
    have "withinCapacity s1"
      using withinCapacity_createCircle [OF w, of e x "spawnY e" "nextValue s" now] c by simp
    then show ?thesis using w Some c
      by (cases C) (simp_all add: tryDrop_def withinCapacity_def Let_def)
  qed
qed

lemma withinCapacity_restart: "withinCapacity (restart e now s)"
  by (simp add: restart_def withinCapacity_def Let_def)

lemma withinCapacity_togglePause:
  "withinCapacity s \<Longrightarrow> withinCapacity (togglePause now s)"
  by (simp add: togglePause_def withinCapacity_def Let_def)

lemma withinCapacity_handle:
  "withinCapacity s \<Longrightarrow> withinCapacity (handle e s ev)"
  by (cases ev)
    (simp_all add: withinCapacity_tryDrop withinCapacity_fixedStep withinCapacity_fireTimer
      withinCapacity_restart withinCapacity_togglePause)

lemma withinCapacity_run:
  "withinCapacity s \<Longrightarrow> withinCapacity (run e evs s)"
  unfolding run_def by (induction evs arbitrary: s) (simp_all add: withinCapacity_handle)

text \<open>
  C5: the number of live discs never exceeds maxCircles (150). Every event (drop, fixed
  step with its merge resolutions, timer firing with its merge completion, restart,
  pause) keeps a table that is within capacity within capacity, so every state reached from
  initGame has at most 150 discs; createCircle on a table at capacity returns null and
  leaves the world and the disc table as they were.
\<close>

theorem disc_count_bounded:
  "(distinct (map fst (circles s)) \<and> length (circles s) \<le> maxCircles \<longrightarrow>
      distinct (map fst (circles (run e evs s))) \<and> length (circles (run e evs s)) \<le> maxCircles)
   \<and> length (circles (run e evs (initGame e savedBest firstBodyId t0 now))) \<le> maxCircles
   \<and> (length (circles s) \<ge> maxCircles \<longrightarrow>
        fst (createCircle e x y v now s) = None
        \<and> world (snd (createCircle e x y v now s)) = world s
        \<and> circles (snd (createCircle e x y v now s)) = circles s)
   \<and> maxCircles = 150"
proof -
  have "withinCapacity (run e evs (initGame e savedBest firstBodyId t0 now))"
    by (intro withinCapacity_run) (simp add: initGame_def withinCapacity_restart)
  then show ?thesis
    using withinCapacity_run [of s e evs]
    by (simp add: withinCapacity_def createCircle_def showToastMessage_def maxCircles_def)
qed

theorem disc_count_bounded_witness:
  "distinct (map fst (circles twoDiscs)) \<and> length (circles twoDiscs) \<le> maxCircles
   \<and> length (circles (run desktop [Fire 9000 0, Restart 9500] twoDiscs)) \<le> maxCircles
   \<and> length (circles fullBoard) \<ge> maxCircles
   \<and> fst (createCircle desktop 300 100 2 9000 fullBoard) = None
   \<and> world (snd (createCircle desktop 300 100 2 9000 fullBoard)) = world fullBoard
   \<and> circles (snd (createCircle desktop 300 100 2 9000 fullBoard)) = circles fullBoard"
proof -
  have a: "distinct (map fst (circles twoDiscs)) \<and> length (circles twoDiscs) \<le> maxCircles"
    by (simp add: twoDiscs_fields maxCircles_def)
  have b: "length (circles fullBoard) \<ge> maxCircles"
    by (simp add: fullBoard_def maxCircles_def)
  show ?thesis
    using a b
      disc_count_bounded [where s = twoDiscs and e = desktop and evs = "[Fire 9000 0, Restart 9500]"]
      disc_count_bounded [where s = fullBoard and e = desktop and x = 300 and y = 100
        and v = 2 and now = 9000]
    by simp
qed

subsection \<open>The danger line\<close>

lemma radius_ge_12: "12 \<le> getRadiusForValue e v"
  by (simp add: getRadiusForValue_def Let_def max_def)

lemma dangerScan_iff:
  "dangerScan e now ds \<longleftrightarrow>
     (\<exists>d\<in>set ds. now - bornAt d > gracePeriodMs
        \<and> (circleTop e d < dangerLineY e \<or> position_y (body d) < dangerLineY e))"
  by (induction ds) auto

lemma emergencyCount_eq:
  "emergencyCount e now ds =
     length (filter (\<lambda>d. now - bornAt d > gracePeriodMs
                          \<and> position_y (body d) < dangerLineY e + 30) ds)"
  by (induction ds) auto

lemma lowest_top_foldl:
  "foldl (\<lambda>h d. if circleTop e d < h then circleTop e d else h) h0 ds
     = Min (insert h0 (circleTop e ` set ds))"
proof (induction ds arbitrary: h0)
  case Nil
  show ?case by simp
next
  case (Cons d ds)
  have "Min (insert (if circleTop e d < h0 then circleTop e d else h0) (circleTop e ` set ds))
      = Min (insert h0 (insert (circleTop e d) (circleTop e ` set ds)))"
    by (cases "circleTop e ` set ds = {}") (auto simp: min_def)
  then show ?case by (simp add: Cons.IH)
qed

lemma highestCircleTop_is_min:
  "highestCircleTop (updateHighestCircle e s)
     = Min (insert (boardH e) (circleTop e ` snd ` set (circles s)))"
  by (simp add: updateHighestCircle_def lowest_top_foldl)

lemma fast_path_agrees_on_danger_line:
  assumes "highestCircleTop (updateHighestCircle e s) > dangerLineY e"
  shows "\<not> dangerScan e now (map snd (circles s))"
proof -
  have top: "dangerLineY e < circleTop e d" if "d \<in> snd ` set (circles s)" for d
    using assms(1) that by (auto simp: highestCircleTop_is_min)
  have centre: "circleTop e d \<le> position_y (body d)" for d
    using radius_ge_12 [of e "circle_value d"] by (simp add: circleTop_def)
  have "\<not> (circleTop e d < dangerLineY e \<or> position_y (body d) < dangerLineY e)"
    if "d \<in> snd ` set (circles s)" for d
    using top [OF that] centre [of d] by linarith
  then show ?thesis by (auto simp: dangerScan_iff)
qed

lemma fast_path_agrees_for_large_discs:
  assumes "highestCircleTop (updateHighestCircle e s) > dangerLineY e"
    and "\<forall>d \<in> snd ` set (circles s). 30 \<le> getRadiusForValue e (circle_value d)"
  shows "fullScan e now (updateHighestCircle e s) = updateHighestCircle e s"
proof -
  have top: "dangerLineY e < circleTop e d" if "d \<in> snd ` set (circles s)" for d
    using assms(1) that by (auto simp: highestCircleTop_is_min)
  have "\<not> position_y (body d) < dangerLineY e + 30" if "d \<in> snd ` set (circles s)" for d
    using top [OF that] assms(2) that by (auto simp: circleTop_def)
  then have "filter (\<lambda>d. now - bornAt d > gracePeriodMs
                          \<and> position_y (body d) < dangerLineY e + 30) (map snd (circles s)) = []"
    by (auto simp: filter_empty_conv)
  then have "emergencyCount e now (map snd (circles s)) = 0"
    by (simp add: emergencyCount_eq)
  with fast_path_agrees_on_danger_line [OF assms(1), of now] show ?thesis
    by (simp add: fullScan_def updateHighestCircle_def)
qed

lemma desktop_radius_ge_34:
  "\<not> isMobile e \<Longrightarrow> 2 \<le> v \<Longrightarrow> 34 \<le> getRadiusForValue e v"
proof -
  assume a: "\<not> isMobile e" "2 \<le> v"
  then have "1 \<le> real_of_int v / 2" by simp
  then have "0 \<le> log 2 (real_of_int v / 2)" by simp
  then have "0 \<le> log 2 (real_of_int v / 2) * 0.15 * 34" by simp
  then show ?thesis using a by (simp add: getRadiusForValue_def Let_def)
qed

lemma endGame_circles_update:
  "endGame r now (s\<lparr> circles := cs \<rparr>) = (endGame r now s)\<lparr> circles := cs \<rparr>"
  by (simp add: endGame_def)

lemma dangerScan_sameOldDiscs:
  "list_all2 (sameOldDiscs now) ds ds' \<Longrightarrow> dangerScan e now ds' = dangerScan e now ds"
  by (induction rule: list_all2_induct) (auto simp: sameOldDiscs_def)

lemma emergencyCount_sameOldDiscs:
  "list_all2 (sameOldDiscs now) ds ds' \<Longrightarrow> emergencyCount e now ds' = emergencyCount e now ds"
  by (induction rule: list_all2_induct) (auto simp: sameOldDiscs_def)

lemma setPosition_sameOldDiscs:
  assumes "\<forall>d. (k, d) \<in> set (circles s) \<longrightarrow> now - bornAt d \<le> gracePeriodMs"
  shows "list_all2 (sameOldDiscs now) (map snd (circles s))
           (map snd (circles (setPosition k x y s)))"
  using assms
  by (auto simp: setPosition_def list_all2_map1 list_all2_map2 list_all2_same sameOldDiscs_def)

lemma fullScan_moved:
  assumes "\<forall>d. (k, d) \<in> set (circles s) \<longrightarrow> now - bornAt d \<le> gracePeriodMs"
  shows "fullScan e now (setPosition k x y s) = setPosition k x y (fullScan e now s)"
proof -
  note m = setPosition_sameOldDiscs [OF assms, of x y]
  have "dangerScan e now (map snd (circles (setPosition k x y s)))
      = dangerScan e now (map snd (circles s))"
    using m by (rule dangerScan_sameOldDiscs)
  moreover have "emergencyCount e now (map snd (circles (setPosition k x y s)))
      = emergencyCount e now (map snd (circles s))"
    using m by (rule emergencyCount_sameOldDiscs)
  moreover have "length (circles (setPosition k x y s)) = length (circles s)"
    by (simp add: setPosition_def)
  moreover have "endGame r now (setPosition k x y s) = setPosition k x y (endGame r now s)" for r
    by (simp add: setPosition_def endGame_def)
  ultimately show ?thesis by (simp add: fullScan_def)
qed

lemma all_young_no_end:
  assumes "\<forall>d\<in>snd ` set (circles s). now - bornAt d \<le> gracePeriodMs"
  shows "fullScan e now s = s"
proof -
  have "\<not> dangerScan e now (map snd (circles s))"
    using assms by (auto simp: dangerScan_iff)
  moreover have "filter (\<lambda>d. now - bornAt d > gracePeriodMs
                          \<and> position_y (body d) < dangerLineY e + 30) (map snd (circles s)) = []"
    using assms by (auto simp: filter_empty_conv)
  then have "emergencyCount e now (map snd (circles s)) = 0"
    by (simp add: emergencyCount_eq)
  ultimately show ?thesis by (simp add: fullScan_def)
qed

lemma phone_consts:
  "getRadiusForValue phone 2 = 22.4" "dangerLineY phone = 80" "boardH phone = 400"
  by (simp_all add: getRadiusForValue_def dangerLineY_def boardH_def phone_def Let_def)

lemma crowded_fields:
  "\<not> ended crowded" "running crowded" "\<not> paused crowded"
  by (simp_all add: crowded_def initGame_def initialState_def restart_def showToastMessage_def Let_def)

lemma phone_spawn: "spawnY phone = 35.84" "boardW phone = 280"
  by (simp_all add: spawnY_def getRadiusForValue_def dangerLineY_def boardW_def phone_def
      Let_def log_2_16)

lemma stacked12_fields:
  "running stacked12" "\<not> ended stacked12" "\<not> paused stacked12" "lastDropTs stacked12 = 0"
  "previewX stacked12 = 140" "nextValue stacked12 = 2" "nextBodyId stacked12 = 17"
  "nextLocalId stacked12 = 13"
  "circles stacked12 =
           [phoneDisc 5 30 377.6, phoneDisc 6 75 377.6, phoneDisc 7 120 377.6,
            phoneDisc 8 165 377.6, phoneDisc 9 210 377.6,
            phoneDisc 10 30 103.4, phoneDisc 11 30 103.4, phoneDisc 12 100 103.4,
            phoneDisc 13 100 103.4, phoneDisc 14 170 103.4, phoneDisc 15 170 103.4,
            phoneDisc 16 240 103.4]"
  by (simp_all add: stacked12_def initGame_def initialState_def restart_def showToastMessage_def
      Let_def phone_def boardW_def rollValue_def valueDist_def)

lemma stacked12_free: "findPlacement phone stacked12 = Some 140"
  by (simp add: findPlacement_def isSpawnFree_def stacked12_fields phoneDisc_def phone_consts
      phone_spawn hypot_less_iff Let_def)

lemma stacked12_drop: "circles (tryDrop phone 4900 stacked12) = circles stacked12 @ [droppedDisc]"
  by (simp add: tryDrop_def stacked12_free stacked12_fields dropCooldownMs_def createCircle_def
      maxCircles_def phone_spawn Let_def droppedDisc_def phoneDisc_def)

lemma stacked12_drop_fields:
  "\<not> ended (tryDrop phone 4900 stacked12)"
  by (simp add: tryDrop_def stacked12_free stacked12_fields dropCooldownMs_def createCircle_def
      maxCircles_def Let_def)

lemma fullScan_ended_iff:
  "ended (fullScan e now s) \<longleftrightarrow>
     ended s \<or> dangerScan e now (map snd (circles s))
     \<or> (12 < length (circles s) \<and> 6 < emergencyCount e now (map snd (circles s)))"
  by (simp add: fullScan_def endGame_def)

lemma all_young_tick:
  assumes "\<forall>d\<in>snd ` set (circles s). now - bornAt d \<le> gracePeriodMs"
  shows "checkDangerLine e now (updateHighestCircle e s) = updateHighestCircle e s"
proof -
  have "\<forall>d\<in>snd ` set (circles (updateHighestCircle e s)). now - bornAt d \<le> gracePeriodMs"
    using assms by (simp add: updateHighestCircle_def)
  then have "fullScan e now (updateHighestCircle e s) = updateHighestCircle e s"
    by (rule all_young_no_end)
  then show ?thesis by (simp add: checkDangerLine_def)
qed

text \<open>
  C7, as amended: a disc whose age is at most gracePeriodMs is skipped by the danger-line
  loop and is not counted in emergencyCount, so moving it to any position changes nothing
  in what the scan of checkDangerLine decides, and a table of such discs only never ends
  the session. The scan ends the session exactly when a disc past its grace period has
  its top or centre above the line, or when the table holds more than 12 discs, of any
  age, and emergencyCount is more than 6.
\<close>

theorem young_disc_skipped_by_scan:
  "((\<forall>d. (k, d) \<in> set (circles s) \<longrightarrow> now - bornAt d \<le> gracePeriodMs) \<longrightarrow>
      fullScan e now (setPosition k x y s) = setPosition k x y (fullScan e now s)
      \<and> ended (fullScan e now (setPosition k x y s)) = ended (fullScan e now s)
      \<and> endReason (fullScan e now (setPosition k x y s)) = endReason (fullScan e now s))
   \<and> (dangerScan e now ds \<longleftrightarrow>
        (\<exists>d\<in>set ds. now - bornAt d > gracePeriodMs
           \<and> (circleTop e d < dangerLineY e \<or> position_y (body d) < dangerLineY e)))
   \<and> emergencyCount e now ds
       = length (filter (\<lambda>d. now - bornAt d > gracePeriodMs
                              \<and> position_y (body d) < dangerLineY e + 30) ds)
   \<and> (ended (fullScan e now s) \<longleftrightarrow>
        ended s \<or> dangerScan e now (map snd (circles s))
        \<or> (12 < length (circles s) \<and> 6 < emergencyCount e now (map snd (circles s))))
   \<and> ((\<forall>d\<in>snd ` set (circles s). now - bornAt d \<le> gracePeriodMs) \<longrightarrow>
        fullScan e now s = s
        \<and> checkDangerLine e now (updateHighestCircle e s) = updateHighestCircle e s)
   \<and> gracePeriodMs = 800"
proof -
  have 1: "fullScan e now (setPosition k x y s) = setPosition k x y (fullScan e now s)"
    if "\<forall>d. (k, d) \<in> set (circles s) \<longrightarrow> now - bornAt d \<le> gracePeriodMs"
    using that by (rule fullScan_moved)
  have 2: "ended (setPosition k x y g) = ended g" "endReason (setPosition k x y g) = endReason g" for g
    by (simp_all add: setPosition_def)
  have 3: "fullScan e now s = s
      \<and> checkDangerLine e now (updateHighestCircle e s) = updateHighestCircle e s"
    if "\<forall>d\<in>snd ` set (circles s). now - bornAt d \<le> gracePeriodMs"
    using all_young_no_end [OF that] all_young_tick [OF that] by simp
  show ?thesis
    using 1 2 3 dangerScan_iff [of e now ds] emergencyCount_eq [of e now ds]
      fullScan_ended_iff [of e now s]
    by (simp add: gracePeriodMs_def)
qed

theorem young_disc_skipped_by_scan_witness:
  "map (\<lambda>(k, d). (k, bornAt d)) (circles twoDiscs) = [(5, 1500), (6, 2000)]
   \<and> 2500 - 2000 \<le> gracePeriodMs
   \<and> \<not> ended (fullScan desktop 2500 (setPosition 6 335 50 twoDiscs))
   \<and> 2100 - 1500 \<le> gracePeriodMs \<and> 2100 - 2000 \<le> gracePeriodMs
   \<and> fullScan desktop 2100 twoDiscs = twoDiscs
   \<and> checkDangerLine desktop 2100 (updateHighestCircle desktop twoDiscs)
       = updateHighestCircle desktop twoDiscs"
proof -
  have born: "map (\<lambda>(k, d). (k, bornAt d)) (circles twoDiscs) = [(5, 1500), (6, 2000)]"
    by (simp add: twoDiscs_fields)
  have y6: "\<forall>d. (6, d) \<in> set (circles twoDiscs) \<longrightarrow> 2500 - bornAt d \<le> gracePeriodMs"
    by (simp add: twoDiscs_fields gracePeriodMs_def)
  have all: "\<forall>d\<in>snd ` set (circles twoDiscs). 2100 - bornAt d \<le> gracePeriodMs"
    by (simp add: twoDiscs_fields gracePeriodMs_def)
  have n: "\<not> ended (fullScan desktop 2500 twoDiscs)"
    by (simp add: fullScan_def twoDiscs_fields twoDiscs_more_fields desktop_consts
        gracePeriodMs_def circleTop_def)
  have p: "ended (fullScan desktop 2500 (setPosition 6 335 50 twoDiscs))
      = ended (fullScan desktop 2500 twoDiscs)"
    using young_disc_skipped_by_scan [where s = twoDiscs and k = 6 and now = 2500
        and e = desktop and x = 335 and y = 50, THEN conjunct1] y6 by blast
  have q: "fullScan desktop 2100 twoDiscs = twoDiscs
      \<and> checkDangerLine desktop 2100 (updateHighestCircle desktop twoDiscs)
          = updateHighestCircle desktop twoDiscs"
    using young_disc_skipped_by_scan [where s = twoDiscs and now = 2100 and e = desktop,
        THEN conjunct2, THEN conjunct2, THEN conjunct2, THEN conjunct2, THEN conjunct1] all
    by blast
  have g: "2500 - 2000 \<le> gracePeriodMs" "2100 - 1500 \<le> gracePeriodMs"
    "2100 - 2000 \<le> gracePeriodMs"
    by (simp_all add: gracePeriodMs_def)
  show ?thesis using born g n p q by blast
qed

text \<open>
  The claim as first stated, that such a disc never ends the session, fails: the disc
  counts in the size of the table. On the phone board with twelve discs past their grace
  period the session goes on; a drop at time 4900 adds a thirteenth disc at the spawn
  point, and the check at time 5000, when that disc is 100 ms old, ends the session with
  "Too many circles stacked."
\<close>

theorem young_disc_arrival_ends_session:
  "\<not> ended (checkDangerLine phone 5000 (updateHighestCircle phone stacked12))
   \<and> \<not> ended (fullScan phone 5000 (updateHighestCircle phone stacked12))
   \<and> circles (tryDrop phone 4900 stacked12) = circles stacked12 @ [droppedDisc]
   \<and> bornAt (snd droppedDisc) = 4900
   \<and> 5000 - 4900 \<le> gracePeriodMs
   \<and> ended (checkDangerLine phone 5000 (updateHighestCircle phone (tryDrop phone 4900 stacked12)))
   \<and> endReason (checkDangerLine phone 5000
        (updateHighestCircle phone (tryDrop phone 4900 stacked12))) = ''Too many circles stacked.''
   \<and> ended (fullScan phone 5000 (updateHighestCircle phone (tryDrop phone 4900 stacked12)))"
proof -
  have d0: "\<not> dangerScan phone 5000 (map snd (circles stacked12))"
    by (simp add: stacked12_fields phoneDisc_def circleTop_def phone_consts gracePeriodMs_def)
  have c0: "emergencyCount phone 5000 (map snd (circles stacked12)) = 7"
    by (simp add: stacked12_fields phoneDisc_def phone_consts gracePeriodMs_def)
  have l0: "length (circles stacked12) = 12" by (simp add: stacked12_fields)
  have a: "\<not> ended (fullScan phone 5000 (updateHighestCircle phone stacked12))"
    using d0 l0 by (simp add: fullScan_def updateHighestCircle_def stacked12_fields(2))
  have b: "\<not> ended (checkDangerLine phone 5000 (updateHighestCircle phone stacked12))"
    using a by (simp add: checkDangerLine_def updateHighestCircle_def stacked12_fields(2))
  let ?s = "tryDrop phone 4900 stacked12"
  have d1: "\<not> dangerScan phone 5000 (map snd (circles ?s))"
    by (simp add: stacked12_drop stacked12_fields phoneDisc_def droppedDisc_def circleTop_def
        phone_consts gracePeriodMs_def)
  have c1: "emergencyCount phone 5000 (map snd (circles ?s)) = 7"
    by (simp add: stacked12_drop stacked12_fields phoneDisc_def droppedDisc_def phone_consts
        gracePeriodMs_def)
  have l1: "length (circles ?s) = 13" by (simp add: stacked12_drop stacked12_fields)
  have h1: "highestCircleTop (updateHighestCircle phone ?s) = 13.44"
    by (simp add: updateHighestCircle_def stacked12_drop stacked12_fields phoneDisc_def
        droppedDisc_def circleTop_def phone_consts)
  have f1: "ended (fullScan phone 5000 (updateHighestCircle phone ?s))
      \<and> endReason (fullScan phone 5000 (updateHighestCircle phone ?s)) = ''Too many circles stacked.''"
    using d1 c1 l1 stacked12_drop_fields
    by (simp add: fullScan_def updateHighestCircle_def endGame_def)
  have k1: "checkDangerLine phone 5000 (updateHighestCircle phone ?s)
      = fullScan phone 5000 (updateHighestCircle phone ?s)"
    using h1 by (simp add: checkDangerLine_def phone_consts)
  have g: "bornAt (snd droppedDisc) = 4900" "5000 - 4900 \<le> gracePeriodMs"
    by (simp_all add: droppedDisc_def gracePeriodMs_def)
  show ?thesis using a b f1 g stacked12_drop by (simp only: k1) blast
qed

text \<open>
  Through the fast path the position of such a disc matters as well (see C8): with the
  thirteen discs of the board \<open>crowded\<close>, a new disc at y = 300 leaves the fast path in
  force, and the same disc at the spawn height makes the scan run and end the session.
\<close>

lemma young_disc_position_and_fast_path:
  "\<not> ended (checkDangerLine phone 5000
        (updateHighestCircle phone (snd (createCircle phone 140 300 2 4900 crowded))))
   \<and> ended (checkDangerLine phone 5000
        (updateHighestCircle phone (snd (createCircle phone 140 35.84 2 4900 crowded))))"
proof -
  have cs: "circles (snd (createCircle phone 140 yy 2 4900 crowded))
      = circles crowded @ [(18, \<lparr> body = \<lparr> body_id = 18, body_label = ''circle'',
            position_x = 140, position_y = yy, velocity_x = 0, velocity_y = 0,
            force_x = 0, force_y = 0 \<rparr>, circle_value = 2, bornAt = 4900, circle_id = 14 \<rparr>)]"
    and e: "\<not> ended (snd (createCircle phone 140 yy 2 4900 crowded))" for yy
    by (simp_all add: createCircle_def crowded_def maxCircles_def Let_def phoneDisc_def
        initGame_def initialState_def restart_def showToastMessage_def)
  have c: "circles crowded =
           [phoneDisc 5 30 377.6, phoneDisc 6 75 377.6, phoneDisc 7 120 377.6,
            phoneDisc 8 165 377.6, phoneDisc 9 210 377.6, phoneDisc 10 255 377.6,
            phoneDisc 11 30 103.4, phoneDisc 12 30 103.4, phoneDisc 13 100 103.4,
            phoneDisc 14 100 103.4, phoneDisc 15 170 103.4, phoneDisc 16 170 103.4,
            phoneDisc 17 240 103.4]"
    by (simp add: crowded_def)
  have low: "highestCircleTop (updateHighestCircle phone
        (snd (createCircle phone 140 300 2 4900 crowded))) = 81"
    by (simp add: updateHighestCircle_def cs c phoneDisc_def circleTop_def phone_consts)
  have high: "highestCircleTop (updateHighestCircle phone
        (snd (createCircle phone 140 35.84 2 4900 crowded))) = 13.44"
    by (simp add: updateHighestCircle_def cs c phoneDisc_def circleTop_def phone_consts)
  have d: "\<not> dangerScan phone 5000 (map snd (circles (snd (createCircle phone 140 35.84 2 4900 crowded))))"
    by (simp add: cs c phoneDisc_def circleTop_def phone_consts gracePeriodMs_def)
  have n: "emergencyCount phone 5000
      (map snd (circles (snd (createCircle phone 140 35.84 2 4900 crowded)))) = 7"
    by (simp add: cs c phoneDisc_def phone_consts gracePeriodMs_def)
  have l: "length (circles (snd (createCircle phone 140 35.84 2 4900 crowded))) = 14"
    by (simp add: cs c)
  have 1: "\<not> ended (checkDangerLine phone 5000
        (updateHighestCircle phone (snd (createCircle phone 140 300 2 4900 crowded))))"
    using low e [of 300] by (simp add: checkDangerLine_def phone_consts updateHighestCircle_def)
  have 2: "ended (checkDangerLine phone 5000
        (updateHighestCircle phone (snd (createCircle phone 140 35.84 2 4900 crowded))))"
    using high d n l
    by (simp add: checkDangerLine_def phone_consts fullScan_ended_iff updateHighestCircle_def)
  show ?thesis using 1 2 by blast
qed

text \<open>
  C8: the fast path is a pure optimisation. It is for the danger-line loop (lemma
  \<open>fast_path_agrees_on_danger_line\<close>) and for discs of radius 30 or more (lemma
  \<open>fast_path_agrees_for_large_discs\<close>), which is every disc of the desktop layout; it is
  not on a phone board, where a disc of value 2 has radius 22.4. On the phone board
  below, the highest top is 81, under the danger line at 80, so checkDangerLine returns
  at once and the session goes on; the scan that the fast path skips finds thirteen
  discs, seven of them with their centre above the danger line plus 30, and ends the
  session with "Too many circles stacked."
\<close>

theorem fast_path_skips_emergency_end:
  "highestCircleTop (updateHighestCircle phone crowded) = 81
   \<and> dangerLineY phone = 80
   \<and> checkDangerLine phone 5000 (updateHighestCircle phone crowded)
       = updateHighestCircle phone crowded
   \<and> \<not> ended (checkDangerLine phone 5000 (updateHighestCircle phone crowded))
   \<and> ended (fullScan phone 5000 (updateHighestCircle phone crowded))
   \<and> endReason (fullScan phone 5000 (updateHighestCircle phone crowded))
       = ''Too many circles stacked.''"
proof -
  have cs: "map snd (circles crowded) = map snd
           [phoneDisc 5 30 377.6, phoneDisc 6 75 377.6, phoneDisc 7 120 377.6,
            phoneDisc 8 165 377.6, phoneDisc 9 210 377.6, phoneDisc 10 255 377.6,
            phoneDisc 11 30 103.4, phoneDisc 12 30 103.4, phoneDisc 13 100 103.4,
            phoneDisc 14 100 103.4, phoneDisc 15 170 103.4, phoneDisc 16 170 103.4,
            phoneDisc 17 240 103.4]"
    by (simp add: crowded_def)
  have h: "highestCircleTop (updateHighestCircle phone crowded) = 81"
    by (simp add: updateHighestCircle_def cs phoneDisc_def circleTop_def phone_consts)
  have d: "\<not> dangerScan phone 5000 (map snd (circles crowded))"
    by (simp add: cs phoneDisc_def circleTop_def phone_consts gracePeriodMs_def)
  have c: "emergencyCount phone 5000 (map snd (circles crowded)) = 7"
    by (simp add: cs phoneDisc_def phone_consts gracePeriodMs_def)
  have l: "length (circles crowded) = 13" by (simp add: crowded_def)
  show ?thesis
    using h d c l crowded_fields
    by (simp add: checkDangerLine_def fullScan_def phone_consts updateHighestCircle_def endGame_def)
qed

subsection \<open>Drop placement\<close>

lemma find_append_option:
  "find P (xs @ ys) = (case find P xs of Some x \<Rightarrow> Some x | None \<Rightarrow> find P ys)"
  by (induction xs) auto

lemma clearOfDiscs_iff:
  "clearOfDiscs e x y r ds \<longleftrightarrow>
     (\<forall>d\<in>set ds. \<not> hypot (x - position_x (body d)) (y - position_y (body d))
                       < (r + getRadiusForValue e (circle_value d)) * 1.1)"
  by (induction ds) (auto simp: Let_def)

lemma isSpawnFree_iff:
  "isSpawnFree e x y v s \<longleftrightarrow>
     (\<forall>d\<in>snd ` set (circles s).
        \<not> hypot (x - position_x (body d)) (y - position_y (body d))
           < (getRadiusForValue e v + getRadiusForValue e (circle_value d)) * 1.1)
     \<and> getRadiusForValue e v \<le> y \<and> y \<le> boardH e - getRadiusForValue e v
     \<and> getRadiusForValue e v \<le> x \<and> x \<le> boardW e - getRadiusForValue e v"
  by (auto simp: isSpawnFree_def clearOfDiscs_iff Let_def)

lemma isSpawnFree_bounds:
  "isSpawnFree e x y v s \<Longrightarrow>
   getRadiusForValue e v \<le> x \<and> x \<le> boardW e - getRadiusForValue e v"
  by (auto simp: isSpawnFree_def Let_def split: if_splits)

lemma stepSearch_find:
  "stepSearch e s v (getRadiusForValue e v) step x y i n
     = find (\<lambda>x'. isSpawnFree e x' y v s)
         (concat (map (\<lambda>i. [x - real i * step, x + real i * step]) [i..<i + n]))"
proof (induction n arbitrary: i)
  case 0
  show ?case by simp
next
  case (Suc n)
  have "[i..<i + Suc n] = i # [Suc i..<Suc i + n]" by (simp add: upt_rec)
  then show ?case using Suc.IH [of "Suc i"]
    by (auto simp: Let_def dest: isSpawnFree_bounds)
qed

lemma zigzagSearch_find:
  "zigzagSearch e s v (getRadiusForValue e v) step y i n
     = find (\<lambda>x'. isSpawnFree e x' y v s)
         (map (\<lambda>i. previewX s + (if i mod 2 = 0 then 1 else -1) * real (i div 2) * step)
            [i..<i + n])"
proof (induction n arbitrary: i)
  case 0
  show ?case by simp
next
  case (Suc n)
  have "[i..<i + Suc n] = i # [Suc i..<Suc i + n]" by (simp add: upt_rec)
  then show ?case using Suc.IH [of "Suc i"]
    by (auto simp: Let_def dest: isSpawnFree_bounds)
qed

lemma findPlacement_find:
  "findPlacement e s
     = find (\<lambda>x. isSpawnFree e x (spawnY e) (nextValue s) s) (candidates e s)"
  using stepSearch_find [of e s "nextValue s" _ "previewX s" "spawnY e" 1 6]
    zigzagSearch_find [of e s "nextValue s" _ "spawnY e" 0 7]
  by (simp add: findPlacement_def candidates_def Let_def find_append_option
      split: option.splits)

lemma candidates_explicit:
  "candidates e s =
     (let x = previewX s; step = getRadiusForValue e (nextValue s) * 1.1
      in [x, x - 1 * step, x + 1 * step, x - 2 * step, x + 2 * step, x - 3 * step, x + 3 * step,
          x - 4 * step, x + 4 * step, x - 5 * step, x + 5 * step, x - 6 * step, x + 6 * step,
          x, x, x + step, x - step, x + 2 * step, x - 2 * step, x + 3 * step])"
  by (simp add: candidates_def Let_def upt_rec)

lemma blockedSpawn_placement: "findPlacement desktop blockedSpawn = Some 225.2"
  by (simp add: findPlacement_find candidates_explicit blockedSpawn_def newGame_fields
      isSpawnFree_def spawnRowDisc_def desktop_consts hypot_less_iff Let_def)

lemma blockedRow_placement: "findPlacement desktop blockedRow = None"
  by (simp add: findPlacement_find candidates_explicit blockedRow_def newGame_fields
      isSpawnFree_def spawnRowDisc_def desktop_consts hypot_less_iff Let_def)

lemma blocked_fields:
  "running blockedSpawn" "\<not> ended blockedSpawn" "\<not> paused blockedSpawn"
  "lastDropTs blockedSpawn = 0" "circles blockedSpawn = [spawnRowDisc 5 300]"
  "nextBodyId blockedSpawn = 6"
  "running blockedRow" "\<not> ended blockedRow" "\<not> paused blockedRow"
  "lastDropTs blockedRow = 0"
  by (simp_all add: blockedSpawn_def blockedRow_def newGame_fields)

text \<open>
  C9: on a drop request (session running, cooldown over) whose default spawn point is
  not free, the disc is placed at the first position of the fixed search order for which
  isSpawnFree holds: the offsets previewX - i * step before previewX + i * step for
  i = 1..6, then the zig-zag sequence at spawnY. A position is free when no live disc is
  closer than (spawnRadius + otherRadius) * 1.1 and the disc fits inside the board. If no position is free, the session
  ends with the reason "No space to spawn." and the disc table and the world are
  unchanged. When the table has room, the new disc stands at the position found.
\<close>

theorem drop_takes_first_free_position:
  "findPlacement e s
     = find (\<lambda>x. isSpawnFree e x (spawnY e) (nextValue s) s) (candidates e s)
   \<and> candidates e s =
     (let x = previewX s; step = getRadiusForValue e (nextValue s) * 1.1
      in [x, x - 1 * step, x + 1 * step, x - 2 * step, x + 2 * step, x - 3 * step, x + 3 * step,
          x - 4 * step, x + 4 * step, x - 5 * step, x + 5 * step, x - 6 * step, x + 6 * step,
          x, x, x + step, x - step, x + 2 * step, x - 2 * step, x + 3 * step])
   \<and> (isSpawnFree e x0 y0 v s \<longleftrightarrow>
        (\<forall>d\<in>snd ` set (circles s).
           \<not> hypot (x0 - position_x (body d)) (y0 - position_y (body d))
              < (getRadiusForValue e v + getRadiusForValue e (circle_value d)) * 1.1)
        \<and> getRadiusForValue e v \<le> y0 \<and> y0 \<le> boardH e - getRadiusForValue e v
        \<and> getRadiusForValue e v \<le> x0 \<and> x0 \<le> boardW e - getRadiusForValue e v)
   \<and> (running s \<and> \<not> ended s \<and> \<not> paused s \<and> now - lastDropTs s \<ge> dropCooldownMs \<longrightarrow>
        (findPlacement e s = None \<longrightarrow>
           tryDrop e now s = endGame ''No space to spawn.'' now s
           \<and> ended (tryDrop e now s)
           \<and> endReason (tryDrop e now s) = ''No space to spawn.''
           \<and> circles (tryDrop e now s) = circles s
           \<and> world (tryDrop e now s) = world s)
        \<and> (\<forall>x. findPlacement e s = Some x \<and> length (circles s) < maxCircles \<longrightarrow>
             circles (tryDrop e now s)
               = AList.update (nextBodyId s)
                   \<lparr> body = \<lparr> body_id = nextBodyId s, body_label = ''circle'',
                              position_x = x, position_y = spawnY e,
                              velocity_x = 0, velocity_y = 0, force_x = 0, force_y = 0 \<rparr>,
                     circle_value = nextValue s, bornAt = now, circle_id = nextLocalId s \<rparr>
                   (circles s)
             \<and> \<not> ended (tryDrop e now s)))"
proof (intro conjI impI allI)
  show "findPlacement e s
     = find (\<lambda>x. isSpawnFree e x (spawnY e) (nextValue s) s) (candidates e s)"
    by (rule findPlacement_find)
  show "candidates e s =
     (let x = previewX s; step = getRadiusForValue e (nextValue s) * 1.1
      in [x, x - 1 * step, x + 1 * step, x - 2 * step, x + 2 * step, x - 3 * step, x + 3 * step,
          x - 4 * step, x + 4 * step, x - 5 * step, x + 5 * step, x - 6 * step, x + 6 * step,
          x, x, x + step, x - step, x + 2 * step, x - 2 * step, x + 3 * step])"
    by (rule candidates_explicit)
  show "isSpawnFree e x0 y0 v s \<longleftrightarrow>
        (\<forall>d\<in>snd ` set (circles s).
           \<not> hypot (x0 - position_x (body d)) (y0 - position_y (body d))
              < (getRadiusForValue e v + getRadiusForValue e (circle_value d)) * 1.1)
        \<and> getRadiusForValue e v \<le> y0 \<and> y0 \<le> boardH e - getRadiusForValue e v
        \<and> getRadiusForValue e v \<le> x0 \<and> x0 \<le> boardW e - getRadiusForValue e v"
    by (rule isSpawnFree_iff)
next
  assume g: "running s \<and> \<not> ended s \<and> \<not> paused s \<and> now - lastDropTs s \<ge> dropCooldownMs"
    and n: "findPlacement e s = None"
  from g n show t: "tryDrop e now s = endGame ''No space to spawn.'' now s"
    by (simp add: tryDrop_def)
  from g show "ended (tryDrop e now s)" by (simp add: t endGame_def)
  from g show "endReason (tryDrop e now s) = ''No space to spawn.''" by (simp add: t endGame_def)
  show "circles (tryDrop e now s) = circles s" by (simp add: t endGame_def)
  show "world (tryDrop e now s) = world s" by (simp add: t endGame_def)
next
  fix x
  assume g: "running s \<and> \<not> ended s \<and> \<not> paused s \<and> now - lastDropTs s \<ge> dropCooldownMs"
    and p: "findPlacement e s = Some x \<and> length (circles s) < maxCircles"
  from g p show "circles (tryDrop e now s)
               = AList.update (nextBodyId s)
                   \<lparr> body = \<lparr> body_id = nextBodyId s, body_label = ''circle'',
                              position_x = x, position_y = spawnY e,
                              velocity_x = 0, velocity_y = 0, force_x = 0, force_y = 0 \<rparr>,
                     circle_value = nextValue s, bornAt = now, circle_id = nextLocalId s \<rparr>
                   (circles s)"
    by (simp add: tryDrop_def createCircle_def Let_def)
  from g p show "\<not> ended (tryDrop e now s)"
    by (simp add: tryDrop_def createCircle_def Let_def)
qed

theorem drop_takes_first_free_position_witness:
  "running blockedSpawn \<and> \<not> ended blockedSpawn \<and> \<not> paused blockedSpawn
   \<and> 3000 - lastDropTs blockedSpawn \<ge> dropCooldownMs
   \<and> findPlacement desktop blockedSpawn = Some 225.2
   \<and> length (circles blockedSpawn) < maxCircles
   \<and> map (\<lambda>(k, d). (k, position_x (body d), position_y (body d)))
         (circles (tryDrop desktop 3000 blockedSpawn)) = [(5, 300, 54.4), (6, 225.2, 54.4)]
   \<and> running blockedRow \<and> \<not> ended blockedRow \<and> \<not> paused blockedRow
   \<and> 3000 - lastDropTs blockedRow \<ge> dropCooldownMs
   \<and> findPlacement desktop blockedRow = None
   \<and> ended (tryDrop desktop 3000 blockedRow)
   \<and> endReason (tryDrop desktop 3000 blockedRow) = ''No space to spawn.''
   \<and> circles (tryDrop desktop 3000 blockedRow) = circles blockedRow"
proof -
  note t1 = drop_takes_first_free_position [where e = desktop and s = blockedSpawn and now = 3000,
      THEN conjunct2, THEN conjunct2, THEN conjunct2, rule_format]
  note t2 = drop_takes_first_free_position [where e = desktop and s = blockedRow and now = 3000,
      THEN conjunct2, THEN conjunct2, THEN conjunct2, rule_format]
  have g1: "running blockedSpawn \<and> \<not> ended blockedSpawn \<and> \<not> paused blockedSpawn
      \<and> 3000 - lastDropTs blockedSpawn \<ge> dropCooldownMs"
    by (simp add: blocked_fields dropCooldownMs_def)
  have g2: "running blockedRow \<and> \<not> ended blockedRow \<and> \<not> paused blockedRow
      \<and> 3000 - lastDropTs blockedRow \<ge> dropCooldownMs"
    by (simp add: blocked_fields dropCooldownMs_def)
  have p1: "findPlacement desktop blockedSpawn = Some 225.2 \<and> length (circles blockedSpawn) < maxCircles"
    by (simp add: blockedSpawn_placement blocked_fields maxCircles_def)
  have c1: "map (\<lambda>(k, d). (k, position_x (body d), position_y (body d)))
         (circles (tryDrop desktop 3000 blockedSpawn)) = [(5, 300, 54.4), (6, 225.2, 54.4)]"
    using t1 [OF g1, THEN conjunct2, rule_format, OF p1]
    by (simp add: blocked_fields spawnRowDisc_def desktop_consts)
  note e2 = t1 [OF g1, THEN conjunct1] t2 [OF g2, THEN conjunct1, rule_format, OF blockedRow_placement]
  show ?thesis using g1 g2 p1 c1 e2 blockedRow_placement by blast
qed

end
